theory Spec2Isabelle
  imports Main
begin

section \<open>relocswap: the ELF relocation model of main.cc\<close>

text \<open>
  The program reads an ELF image, keeps its dynamic relocations together with the file
  offset each one was read from, prints them, and writes a copy of the image in which
  pairs of relocations have exchanged their \<open>r_offset\<close> (and \<open>r_addend\<close>) fields.

  Conventions of the embedding.
  \<^item> A byte is a \<open>char\<close>, as in the source (\<open>std::vector<char>\<close>, \<open>char *\<close> reads); a
    file and a string table are \<open>string\<close>s.
  \<^item> The structures of the system header \<open>elf.h\<close> are read and written as raw memory by
    the source. Their layout is taken from the ELF ABI (field order and widths of
    \<open>Elf32_*\<close> and \<open>Elf64_*\<close>, no padding) on a little-endian host.
  \<^item> Integer fields are \<open>nat\<close>s; every wrap-around, truncation and signed reading that
    the source's types imply is written out.
  \<^item> Every way the process can stop early is a value of \<open>error\<close>.
\<close>

subsection \<open>Errors\<close>

datatype error =
    ErrExit string      \<comment> \<open>\<open>errExit(msg)\<close>: message on stderr, \<open>exit(EXIT_FAILURE)\<close>\<close>
  | AssertFail string   \<comment> \<open>a failed \<open>assert\<close>\<close>
  | DivByZero           \<comment> \<open>integer division by zero\<close>
  | SignedOverflow      \<comment> \<open>overflow of an \<open>int\<close> multiplication\<close>
  | OutOfBounds         \<comment> \<open>an access that starts outside its vector\<close>
  | Unterminated        \<comment> \<open>a C-string read that runs past the end of its vector\<close>
  | BufferOverflow      \<comment> \<open>a read of more bytes than the destination structure holds\<close>
  | Indeterminate       \<comment> \<open>a structure field that the read did not fill\<close>
  | LengthError         \<comment> \<open>uncaught \<open>std::length_error\<close> of \<open>vector::resize\<close>\<close>
  | FilesystemError     \<comment> \<open>uncaught \<open>std::filesystem::filesystem_error\<close>\<close>

subsection \<open>Bytes and little-endian fields\<close>

fun le_val :: "string \<Rightarrow> nat" where
  "le_val [] = 0"
| "le_val (b # bs) = of_char b + 256 * le_val bs"

fun le_bytes :: "nat \<Rightarrow> nat \<Rightarrow> string" where
  "le_bytes 0 v = []"
| "le_bytes (Suc k) v = char_of (v mod 256) # le_bytes k (v div 256)"

definition field :: "string \<Rightarrow> nat \<Rightarrow> nat \<Rightarrow> nat" where
  \<comment> \<open>the unsigned integer of width \<open>w\<close> at byte offset \<open>off\<close> of a structure's bytes\<close>
  "field bs off w = le_val (take w (drop off bs))"

definition NUL :: char where
  "NUL = CHR 0x00"

definition endl :: string where
  "endl = [CHR 0x0A]"

subsection \<open>The two instances of the template\<close>

datatype elfclass = ELFCLASS32 | ELFCLASS64

fun wordsize :: "elfclass \<Rightarrow> nat" where
  \<comment> \<open>bytes of \<open>Elf_Addr\<close>, \<open>Elf_Off\<close>, \<open>Elf32_Word\<close>/\<open>Elf64_Xword\<close> and the signed addend\<close>
  "wordsize ELFCLASS32 = 4"
| "wordsize ELFCLASS64 = 8"

fun sizeof_Ehdr :: "elfclass \<Rightarrow> nat" where
  "sizeof_Ehdr ELFCLASS32 = 52"
| "sizeof_Ehdr ELFCLASS64 = 64"

fun sizeof_Shdr :: "elfclass \<Rightarrow> nat" where
  "sizeof_Shdr ELFCLASS32 = 40"
| "sizeof_Shdr ELFCLASS64 = 64"

fun sizeof_Sym :: "elfclass \<Rightarrow> nat" where
  "sizeof_Sym ELFCLASS32 = 16"
| "sizeof_Sym ELFCLASS64 = 24"

definition sizeof_Rel :: "elfclass \<Rightarrow> nat" where
  "sizeof_Rel c = 2 * wordsize c"

definition sizeof_Rela :: "elfclass \<Rightarrow> nat" where
  "sizeof_Rela c = 3 * wordsize c"

text \<open>
  The constants and macros below have the values the system header \<open>elf.h\<close> gives
  them: the section types, the magic bytes \<open>"\177ELF"\<close>, and (further down)
  \<open>ELF32_R_SYM(val) = val >> 8\<close> and \<open>ELF64_R_SYM(i) = i >> 32\<close>.
\<close>

definition SHT_STRTAB :: nat where "SHT_STRTAB = 3"
definition SHT_RELA :: nat where "SHT_RELA = 4"
definition SHT_REL :: nat where "SHT_REL = 9"
definition SHT_DYNSYM :: nat where "SHT_DYNSYM = 11"

definition ELFMAG :: string where
  "ELFMAG = CHR 0x7F # ''ELF''"

record Ehdr =
  e_shoff :: nat
  e_shentsize :: nat
  e_shnum :: nat
  e_shstrndx :: nat

record Shdr =
  sh_name :: nat
  sh_type :: nat
  sh_offset :: nat
  sh_size :: nat
  sh_entsize :: nat

record Rel =
  r_offset :: nat
  r_info :: nat

record Rela = Rel +
  r_addend :: nat

record Sym =
  st_name :: nat

text \<open>
  Only the fields the program reads are kept: \<open>e_shoff\<close>, \<open>e_shentsize\<close>, \<open>e_shnum\<close>,
  \<open>e_shstrndx\<close> of the header, five fields of a section header, \<open>st_name\<close> of a symbol.
  The byte offsets below are those of the ABI structures.
\<close>

definition decode_Ehdr :: "elfclass \<Rightarrow> string \<Rightarrow> Ehdr" where
  "decode_Ehdr c bs =
     (case c of
        ELFCLASS32 \<Rightarrow> \<lparr>e_shoff = field bs 32 4, e_shentsize = field bs 46 2,
                       e_shnum = field bs 48 2, e_shstrndx = field bs 50 2\<rparr>
      | ELFCLASS64 \<Rightarrow> \<lparr>e_shoff = field bs 40 8, e_shentsize = field bs 58 2,
                       e_shnum = field bs 60 2, e_shstrndx = field bs 62 2\<rparr>)"

definition decode_Shdr :: "elfclass \<Rightarrow> string \<Rightarrow> Shdr" where
  "decode_Shdr c bs =
     (case c of
        ELFCLASS32 \<Rightarrow> \<lparr>sh_name = field bs 0 4, sh_type = field bs 4 4,
                       sh_offset = field bs 16 4, sh_size = field bs 20 4,
                       sh_entsize = field bs 36 4\<rparr>
      | ELFCLASS64 \<Rightarrow> \<lparr>sh_name = field bs 0 4, sh_type = field bs 4 4,
                       sh_offset = field bs 24 8, sh_size = field bs 32 8,
                       sh_entsize = field bs 56 8\<rparr>)"

definition decode_Rel :: "elfclass \<Rightarrow> string \<Rightarrow> Rel" where
  "decode_Rel c bs =
     \<lparr>r_offset = field bs 0 (wordsize c), r_info = field bs (wordsize c) (wordsize c)\<rparr>"

definition decode_Rela :: "elfclass \<Rightarrow> string \<Rightarrow> Rela" where
  "decode_Rela c bs =
     \<lparr>r_offset = field bs 0 (wordsize c), r_info = field bs (wordsize c) (wordsize c),
      r_addend = field bs (2 * wordsize c) (wordsize c)\<rparr>"

definition decode_Sym :: "string \<Rightarrow> Sym" where
  "decode_Sym bs = \<lparr>st_name = field bs 0 4\<rparr>"

definition encode_Rel :: "elfclass \<Rightarrow> Rel \<Rightarrow> string" where
  \<comment> \<open>the \<open>sizeof(RelT)\<close> bytes of the object, as \<open>write((char *)&a, sizeof(RelT))\<close> emits them\<close>
  "encode_Rel c r = le_bytes (wordsize c) (r_offset r) @ le_bytes (wordsize c) (r_info r)"

definition encode_Rela :: "elfclass \<Rightarrow> Rela \<Rightarrow> string" where
  "encode_Rela c r =
     le_bytes (wordsize c) (r_offset r) @ le_bytes (wordsize c) (r_info r)
       @ le_bytes (wordsize c) (r_addend r)"

definition streamoff :: "nat \<Rightarrow> int" where
  \<comment> \<open>an unsigned 64-bit value converted to \<open>std::streamoff\<close> (signed 64-bit)\<close>
  "streamoff v = (let m = v mod 2 ^ 64 in if m < 2 ^ 63 then int m else int m - 2 ^ 64)"

definition to_uint64 :: "int \<Rightarrow> nat" where
  "to_uint64 i = nat (i mod 2 ^ 64)"

definition to_int :: "nat \<Rightarrow> int" where
  \<comment> \<open>an unsigned value converted to \<open>int\<close> (32-bit, modular)\<close>
  "to_int v = (let m = v mod 2 ^ 32 in if m < 2 ^ 31 then int m else int m - 2 ^ 32)"

subsection \<open>The input stream\<close>

text \<open>
  \<open>std::ifstream\<close> over a regular file: the file's bytes, the get position and the
  failure state. A read past the end and a seek to a negative offset set the failure
  state; with it set, \<open>read\<close> and \<open>seekg\<close> do nothing and \<open>tellg\<close> is \<open>-1\<close>. Seeking
  beyond the end of the file is allowed.
\<close>

record istream =
  content :: string
  gpos :: nat
  failbit :: bool

definition tellg :: "istream \<Rightarrow> int" where
  "tellg fp = (if failbit fp then - 1 else int (gpos fp))"

definition seekg :: "int \<Rightarrow> istream \<Rightarrow> istream" where
  "seekg p fp =
     (if failbit fp then fp
      else if p < 0 then fp\<lparr>failbit := True\<rparr>
      else fp\<lparr>gpos := nat p\<rparr>)"

definition read :: "nat \<Rightarrow> istream \<Rightarrow> string \<times> istream" where
  \<comment> \<open>the bytes stored into the buffer, and the stream afterwards\<close>
  "read n fp =
     (if failbit fp then ([], fp)
      else let avail = drop (gpos fp) (content fp)
           in if n \<le> length avail then (take n avail, fp\<lparr>gpos := gpos fp + n\<rparr>)
              else (avail, fp\<lparr>gpos := gpos fp + length avail, failbit := True\<rparr>))"

subsection \<open>The parsed model\<close>

record ElfT =
  relocs :: "(nat \<times> Rel) list"
  relocsAddends :: "(nat \<times> Rela) list"
  symbolTable :: "Sym list"
  stringTable :: string
  sectionStringTable :: string

definition empty_ElfT :: ElfT where
  "empty_ElfT = \<lparr>relocs = [], relocsAddends = [], symbolTable = [], stringTable = [],
                  sectionStringTable = []\<rparr>"

fun read_rels :: "elfclass \<Rightarrow> nat \<Rightarrow> (nat \<times> Rel) list \<Rightarrow> istream
    \<Rightarrow> error + (nat \<times> Rel) list \<times> istream" where
  \<comment> \<open>the loop of lines 43-49, for the remaining number of iterations\<close>
  "read_rels c 0 acc fp = Inr (acc, fp)"
| "read_rels c (Suc k) acc fp =
     (let relOffset = tellg fp;
          (bs, fp') = read (sizeof_Rel c) fp
      in if failbit fp' then Inl (ErrExit ''Failed to read relocation.'')
         else read_rels c k (acc @ [(to_uint64 relOffset, decode_Rel c bs)]) fp')"

fun read_relas :: "elfclass \<Rightarrow> nat \<Rightarrow> (nat \<times> Rela) list \<Rightarrow> istream
    \<Rightarrow> error + (nat \<times> Rela) list \<times> istream" where
  \<comment> \<open>the loop of lines 51-57\<close>
  "read_relas c 0 acc fp = Inr (acc, fp)"
| "read_relas c (Suc k) acc fp =
     (let relAOffset = tellg fp;
          (bs, fp') = read (sizeof_Rela c) fp
      in if failbit fp' then Inl (ErrExit ''Failed to read relocation.'')
         else read_relas c k (acc @ [(to_uint64 relAOffset, decode_Rela c bs)]) fp')"

definition addRels :: "elfclass \<Rightarrow> Shdr \<Rightarrow> ElfT \<times> istream \<Rightarrow> error + ElfT \<times> istream" where
  "addRels c shdr st =
     (let (elf, fp) = st in
      if failbit fp then Inl (AssertFail ''Invalid input stream.'')
      else if sh_type shdr \<noteq> SHT_REL \<and> sh_type shdr \<noteq> SHT_RELA
        then Inl (AssertFail ''Invalid section header.'')
      else
        let pos = tellg fp;
            fp1 = seekg (streamoff (sh_offset shdr)) fp
        in if sh_entsize shdr = 0 then Inl DivByZero
           else if sh_type shdr = SHT_REL then
             (case read_rels c (sh_size shdr div sh_entsize shdr) (relocs elf) fp1 of
                Inl e \<Rightarrow> Inl e
              | Inr (rs, fp2) \<Rightarrow> Inr (elf\<lparr>relocs := rs\<rparr>, seekg pos fp2))
           else
             (case read_relas c (sh_size shdr div sh_entsize shdr) (relocsAddends elf) fp1 of
                Inl e \<Rightarrow> Inl e
              | Inr (rs, fp2) \<Rightarrow> Inr (elf\<lparr>relocsAddends := rs\<rparr>, seekg pos fp2)))"

definition addSectionStringTable :: "elfclass \<Rightarrow> Ehdr \<Rightarrow> ElfT \<times> istream
    \<Rightarrow> error + ElfT \<times> istream" where
  \<comment> \<open>The product of the two \<open>Elf_Half\<close> fields is an \<open>int\<close> product; the sum has the
      width of \<open>e_shoff\<close>. The read stores \<open>e_shentsize\<close> bytes into one \<open>ShdrT\<close>, of
      which \<open>sh_offset\<close> and \<open>sh_size\<close> are used (they end at byte 24 of the 32-bit
      and at byte 40 of the 64-bit layout).\<close>
  "addSectionStringTable c hdr st =
     (let (elf, fp) = st in
      if failbit fp then Inl (AssertFail ''Invalid input stream.'')
      else
        let pos = tellg fp in
        if e_shstrndx hdr * e_shentsize hdr \<ge> 2 ^ 31 then Inl SignedOverflow
        else
          let target = (e_shoff hdr + e_shstrndx hdr * e_shentsize hdr) mod 2 ^ (8 * wordsize c);
              fp1 = seekg (streamoff target) fp;
              (bs, fp2) = read (e_shentsize hdr) fp1
          in if length bs > sizeof_Shdr c then Inl BufferOverflow
             else if failbit fp2
               then Inl (ErrExit ''Failed to read the section string table header.'')
             else if e_shentsize hdr < (case c of ELFCLASS32 \<Rightarrow> 24 | ELFCLASS64 \<Rightarrow> 40)
               then Inl Indeterminate
             else
               let shdr = decode_Shdr c bs;
                   fp3 = seekg (streamoff (sh_offset shdr)) fp2
               in if sh_size shdr \<ge> 2 ^ 63 then Inl LengthError
                  else
                    let (tab, fp4) = read (sh_size shdr) fp3
                    in if failbit fp4
                         then Inl (ErrExit ''Failed to read the section string table.'')
                       else Inr (elf\<lparr>sectionStringTable := tab\<rparr>, seekg pos fp4))"

definition addStringTable :: "elfclass \<Rightarrow> Shdr \<Rightarrow> ElfT \<times> istream
    \<Rightarrow> error + ElfT \<times> istream" where
  "addStringTable c shdr st =
     (let (elf, fp) = st in
      if sh_type shdr \<noteq> SHT_STRTAB then Inl (AssertFail ''Invalid section header.'')
      else if failbit fp then Inl (AssertFail ''Invalid input stream.'')
      else
        let pos = tellg fp;
            fp1 = seekg (streamoff (sh_offset shdr)) fp
        in if sh_size shdr \<ge> 2 ^ 63 then Inl LengthError
           else
             let (tab, fp2) = read (sh_size shdr) fp1
             in if failbit fp2 then Inl (ErrExit ''Failed to read string table.'')
                else Inr (elf\<lparr>stringTable := tab\<rparr>, seekg pos fp2))"

fun read_syms :: "elfclass \<Rightarrow> nat \<Rightarrow> nat \<Rightarrow> Sym list \<Rightarrow> istream
    \<Rightarrow> error + Sym list \<times> istream" where
  \<comment> \<open>The loop of lines 97-102. Each read stores \<open>sh_entsize\<close> bytes (a count that is
      negative as a \<open>streamsize\<close> reads nothing and fails) into one \<open>SymT\<close>; \<open>st_name\<close>
      is its first four bytes.\<close>
  "read_syms c entsize 0 acc fp = Inr (acc, fp)"
| "read_syms c entsize (Suc k) acc fp =
     (let (bs, fp') = (if streamoff entsize < 0 then ([], fp\<lparr>failbit := True\<rparr>)
                       else read entsize fp)
      in if length bs > sizeof_Sym c then Inl BufferOverflow
         else if failbit fp' then Inl (ErrExit ''Failed to read symbol table entry.'')
         else if entsize < 4 then Inl Indeterminate
         else read_syms c entsize k (acc @ [decode_Sym bs]) fp')"

definition addSymbolTable :: "elfclass \<Rightarrow> Shdr \<Rightarrow> ElfT \<times> istream
    \<Rightarrow> error + ElfT \<times> istream" where
  \<comment> \<open>\<open>n\<close> is an \<open>int\<close>: the quotient is truncated to 32 bits and read as signed, and
      the loop runs \<open>n\<close> times when \<open>n\<close> is positive.\<close>
  "addSymbolTable c shdr st =
     (let (elf, fp) = st in
      if failbit fp then Inl (AssertFail ''Invalid input stream.'')
      else if sh_type shdr \<noteq> SHT_DYNSYM then Inl (AssertFail ''Invalid section header.'')
      else
        let pos = tellg fp in
        if sh_entsize shdr = 0 then Inl DivByZero
        else
          let n = to_int (sh_size shdr div sh_entsize shdr);
              fp1 = seekg (streamoff (sh_offset shdr)) fp
          in case read_syms c (sh_entsize shdr) (nat n) (symbolTable elf) fp1 of
               Inl e \<Rightarrow> Inl e
             | Inr (syms, fp2) \<Rightarrow> Inr (elf\<lparr>symbolTable := syms\<rparr>, seekg pos fp2))"

subsection \<open>Names\<close>

definition cstr :: "string \<Rightarrow> nat \<Rightarrow> error + string" where
  \<comment> \<open>the C string at \<open>&tab[i]\<close>: the bytes up to the first NUL\<close>
  "cstr tab i =
     (if i \<ge> length tab then Inl OutOfBounds
      else if NUL \<in> set (drop i tab) then Inr (takeWhile (\<lambda>b. b \<noteq> NUL) (drop i tab))
      else Inl Unterminated)"

definition isSection :: "ElfT \<Rightarrow> nat \<Rightarrow> string \<Rightarrow> error + bool" where
  "isSection elf idx name =
     (if idx < length (sectionStringTable elf) then
        (case cstr (sectionStringTable elf) idx of
           Inl e \<Rightarrow> Inl e
         | Inr s \<Rightarrow> Inr (name = s))
      else Inr False)"

definition orelse :: "error + bool \<Rightarrow> error + bool \<Rightarrow> error + bool" where
  \<comment> \<open>\<open>a || b\<close>: \<open>b\<close> is evaluated only when \<open>a\<close> is false\<close>
  "orelse a b = (case a of Inl e \<Rightarrow> Inl e | Inr True \<Rightarrow> Inr True | Inr False \<Rightarrow> b)"

definition andalso :: "bool \<Rightarrow> error + bool \<Rightarrow> error + bool" where
  \<comment> \<open>\<open>a && b\<close>: \<open>b\<close> is evaluated only when \<open>a\<close> is true\<close>
  "andalso a b = (if a then b else Inr False)"

subsection \<open>The section loader\<close>

definition load_section :: "elfclass \<Rightarrow> ElfT \<times> istream \<Rightarrow> error + ElfT \<times> istream" where
  \<comment> \<open>one iteration of the loop of lines 223-238\<close>
  "load_section c st =
     (let (elf, fp) = st;
          (bs, fp1) = read (sizeof_Shdr c) fp
      in if failbit fp1 then Inl (ErrExit ''Failed to read section header.'')
         else
           let shdr = decode_Shdr c bs in
           case andalso (sh_type shdr = SHT_REL \<or> sh_type shdr = SHT_RELA)
                  (orelse (isSection elf (sh_name shdr) ''.rel.dyn'')
                    (orelse (isSection elf (sh_name shdr) ''.rela.dyn'')
                            (isSection elf (sh_name shdr) ''.rela.plt''))) of
             Inl e \<Rightarrow> Inl e
           | Inr True \<Rightarrow> addRels c shdr (elf, fp1)
           | Inr False \<Rightarrow>
               (case andalso (sh_type shdr = SHT_STRTAB)
                       (isSection elf (sh_name shdr) ''.dynstr'') of
                  Inl e \<Rightarrow> Inl e
                | Inr True \<Rightarrow> addStringTable c shdr (elf, fp1)
                | Inr False \<Rightarrow>
                    (case andalso (sh_type shdr = SHT_DYNSYM)
                            (isSection elf (sh_name shdr) ''.dynsym'') of
                       Inl e \<Rightarrow> Inl e
                     | Inr True \<Rightarrow> addSymbolTable c shdr (elf, fp1)
                     | Inr False \<Rightarrow> Inr (elf, fp1))))"

fun load_sections :: "elfclass \<Rightarrow> nat \<Rightarrow> ElfT \<times> istream \<Rightarrow> error + ElfT \<times> istream" where
  "load_sections c 0 st = Inr st"
| "load_sections c (Suc k) st =
     (case load_section c st of
        Inl e \<Rightarrow> Inl e
      | Inr st' \<Rightarrow> load_sections c k st')"

definition parse :: "elfclass \<Rightarrow> ElfT \<times> istream \<Rightarrow> error + ElfT \<times> istream" where
  "parse c st =
     (let (elf, fp) = st in
      if failbit fp then Inl (AssertFail ''Invalid fp state.'')
      else
        let (bs, fp1) = read (sizeof_Ehdr c) fp
        in if failbit fp1 then Inl (ErrExit ''Failed to read ELF header.'')
           else
             let hdr = decode_Ehdr c bs in
             case addSectionStringTable c hdr (elf, fp1) of
               Inl e \<Rightarrow> Inl e
             | Inr (elf1, fp2) \<Rightarrow>
                 load_sections c (e_shnum hdr) (elf1, seekg (streamoff (e_shoff hdr)) fp2))"

definition parseElf :: "istream \<Rightarrow> error + elfclass \<times> ElfT" where
  \<comment> \<open>\<open>EI_NIDENT = 16\<close>, \<open>SELFMAG = 4\<close>, \<open>EI_CLASS = 4\<close>, \<open>ELFCLASS32 = 1\<close>, \<open>ELFCLASS64 = 2\<close>\<close>
  "parseElf fp =
     (if failbit fp then Inl (AssertFail ''Invalid input.'')
      else
        let (buf, fp1) = read 16 fp
        in if failbit fp1 \<or> take 4 buf \<noteq> ELFMAG
                \<or> (buf ! 4 \<noteq> CHR 0x01 \<and> buf ! 4 \<noteq> CHR 0x02)
             then Inl (ErrExit ''Failed to read ELF header.'')
           else
             let fp2 = seekg 0 fp1;
                 c = (if buf ! 4 = CHR 0x01 then ELFCLASS32 else ELFCLASS64)
             in case parse c (empty_ElfT, fp2) of
                  Inl e \<Rightarrow> Inl e
                | Inr (elf, fp3) \<Rightarrow> Inr (c, elf))"

definition open_in :: "string \<Rightarrow> istream" where
  \<comment> \<open>a freshly opened stream over a file's bytes\<close>
  "open_in bytes = \<lparr>content = bytes, gpos = 0, failbit = False\<rparr>"

subsection \<open>Symbol names\<close>

definition ELF32_R_SYM :: "nat \<Rightarrow> nat" where
  "ELF32_R_SYM val = val div 2 ^ 8"

definition ELF64_R_SYM :: "nat \<Rightarrow> nat" where
  "ELF64_R_SYM i = i div 2 ^ 32"

definition at_vec :: "'a list \<Rightarrow> nat \<Rightarrow> error + 'a" where
  \<comment> \<open>\<open>v[i]\<close> of a \<open>std::vector\<close>: defined only inside the vector\<close>
  "at_vec v i = (if i < length v then Inr (v ! i) else Inl OutOfBounds)"

definition relocSymName :: "elfclass \<Rightarrow> ElfT \<Rightarrow> nat \<Rightarrow> error + string" where
  \<comment> \<open>\<open>rInfo\<close> is a \<open>uint64_t\<close> parameter\<close>
  "relocSymName c elf rInfo =
     (let symIdx = (if sizeof_Rel c = sizeof_Rel ELFCLASS32
                    then ELF32_R_SYM (rInfo mod 2 ^ 64)
                    else ELF64_R_SYM (rInfo mod 2 ^ 64))
      in if symIdx < length (symbolTable elf) then
           (case at_vec (symbolTable elf) symIdx of
              Inl e \<Rightarrow> Inl e
            | Inr sy \<Rightarrow>
                if st_name sy < length (stringTable elf)
                then cstr (stringTable elf) (st_name sy)
                else Inr ''N/A'')
         else Inr ''N/A'')"

subsection \<open>Dumping\<close>

definition digit_char :: "nat \<Rightarrow> char" where
  "digit_char d = ''0123456789abcdef'' ! d"

function digits :: "nat \<Rightarrow> nat \<Rightarrow> string" where
  "digits b n = (if b < 2 \<or> n < b then [digit_char n]
                 else digits b (n div b) @ [digit_char (n mod b)])"
  by pat_completeness auto
termination
  by (relation "measure snd") auto

declare digits.simps [simp del]

definition show_dec :: "nat \<Rightarrow> string" where
  "show_dec n = digits 10 n"

definition show_hex :: "nat \<Rightarrow> string" where
  \<comment> \<open>\<open>std::hex\<close> without \<open>showbase\<close>: lower-case digits, no prefix; a signed field is
      printed as the unsigned value of its bytes\<close>
  "show_hex n = digits 16 n"

definition dumpReloc_Rel :: "elfclass \<Rightarrow> ElfT \<Rightarrow> Rel \<Rightarrow> string \<Rightarrow> error + string" where
  \<comment> \<open>\<open>dumpReloc(const RelT &)\<close>, appending to what \<open>std::cout\<close> holds\<close>
  "dumpReloc_Rel c elf rel out =
     (case relocSymName c elf (r_info rel) of
        Inl e \<Rightarrow> Inl e
      | Inr nm \<Rightarrow> Inr (out @ show_hex (r_offset rel) @ '', 0x'' @ show_hex (r_info rel) @ nm))"

definition dumpReloc_Rela :: "elfclass \<Rightarrow> ElfT \<Rightarrow> Rela \<Rightarrow> string \<Rightarrow> error + string" where
  \<comment> \<open>\<open>dumpReloc(const RelaT &)\<close>\<close>
  "dumpReloc_Rela c elf rel out =
     (case relocSymName c elf (r_info rel) of
        Inl e \<Rightarrow> Inl e
      | Inr nm \<Rightarrow> Inr (out @ show_hex (r_offset rel) @ '', 0x'' @ show_hex (r_info rel)
                         @ '', 0x'' @ show_hex (r_addend rel) @ '', '' @ nm))"

fun dump_rels :: "elfclass \<Rightarrow> ElfT \<Rightarrow> nat \<Rightarrow> (nat \<times> Rel) list \<Rightarrow> string \<Rightarrow> error + string" where
  \<comment> \<open>the \<open>for_each\<close> of lines 133-139, with the counter \<open>i\<close> its lambda captures
      (an \<open>int\<close>; a sequence in memory has fewer than \<open>2 ^ 31\<close> entries)\<close>
  "dump_rels c elf i [] out = Inr out"
| "dump_rels c elf i (pr # prs) out =
     (case dumpReloc_Rel c elf (snd pr)
             (out @ ''  '' @ show_dec i @ '') 0x'' @ show_hex (fst pr) @ '', '') of
        Inl e \<Rightarrow> Inl e
      | Inr out' \<Rightarrow> dump_rels c elf (Suc i) prs (out' @ endl))"

fun dump_relas :: "elfclass \<Rightarrow> ElfT \<Rightarrow> nat \<Rightarrow> (nat \<times> Rela) list \<Rightarrow> string \<Rightarrow> error + string" where
  \<comment> \<open>the \<open>for_each\<close> of lines 148-154\<close>
  "dump_relas c elf i [] out = Inr out"
| "dump_relas c elf i (pr # prs) out =
     (case dumpReloc_Rela c elf (snd pr)
             (out @ ''  '' @ show_dec i @ '') 0x'' @ show_hex (fst pr) @ '', '') of
        Inl e \<Rightarrow> Inl e
      | Inr out' \<Rightarrow> dump_relas c elf (Suc i) prs (out' @ endl))"

definition rel_header :: "nat \<Rightarrow> string" where
  "rel_header n = ''Dynamic relocs ('' @ show_dec n @ '')'' @ endl
     @ ''ELFOffset, RelocOffset, RelocInfo, SymName'' @ endl"

definition rela_header :: "nat \<Rightarrow> string" where
  "rela_header n = ''Dynamic or PLT relocs with addends ('' @ show_dec n @ '')'' @ endl
     @ ''ELFOffset, RelocOffset, RelocInfo, RelocAddend, SymName'' @ endl"

definition dumpRelocs :: "elfclass \<Rightarrow> ElfT \<Rightarrow> string \<Rightarrow> error + string" where
  \<comment> \<open>from what \<open>std::cout\<close> holds to what it holds afterwards\<close>
  "dumpRelocs c elf out =
     (case (if relocs elf \<noteq> []
            then dump_rels c elf 0 (relocs elf) (out @ rel_header (length (relocs elf)))
            else Inr out) of
        Inl e \<Rightarrow> Inl e
      | Inr out1 \<Rightarrow>
          if relocsAddends elf \<noteq> []
          then dump_relas c elf 0 (relocsAddends elf)
                 (out1 @ rela_header (length (relocsAddends elf)))
          else Inr out1)"

subsection \<open>The output stream\<close>

text \<open>
  \<open>std::ofstream\<close> over the output file: the file's bytes, the put position and the
  failure state. \<open>seekp\<close> takes the recorded \<open>uint64_t\<close> offset as a stream position; a
  negative one sets the failure state, and with it set \<open>seekp\<close> and \<open>write\<close> (here
  \<open>write_out\<close>) do nothing.
  A write overwrites in place and extends the file where it reaches past the end (the
  gap after a position beyond the end reads as zero bytes).
\<close>

record ostream =
  obuf :: string
  ppos :: nat
  ofail :: bool

definition seekp :: "nat \<Rightarrow> ostream \<Rightarrow> ostream" where
  "seekp p out =
     (if ofail out then out
      else if streamoff p < 0 then out\<lparr>ofail := True\<rparr>
      else out\<lparr>ppos := p mod 2 ^ 64\<rparr>)"

definition overwrite :: "string \<Rightarrow> nat \<Rightarrow> string \<Rightarrow> string" where
  "overwrite buf p bs =
     take p buf @ replicate (p - length buf) NUL @ bs @ drop (p + length bs) buf"

definition write_out :: "string \<Rightarrow> ostream \<Rightarrow> ostream" where
  "write_out bs out =
     (if ofail out then out
      else out\<lparr>obuf := overwrite (obuf out) (ppos out) bs, ppos := ppos out + length bs\<rparr>)"

subsection \<open>Shuffling\<close>

text \<open>
  The state \<open>swapN\<close> runs in: the parsed model (\<open>this\<close>), the output stream, what
  \<open>std::cout\<close> holds, and the number of calls of \<open>rand()\<close> made so far. The values of
  \<open>rand()\<close> are a parameter \<open>rnd\<close>: the \<open>k\<close>-th call returns \<open>rnd k\<close>.
\<close>

record world =
  elf :: ElfT
  outFile :: ostream
  cout :: string
  rand_calls :: nat

definition rand :: "(nat \<Rightarrow> nat) \<Rightarrow> world \<Rightarrow> nat \<times> world" where
  "rand rnd w = (rnd (rand_calls w), w\<lparr>rand_calls := Suc (rand_calls w)\<rparr>)"

definition swap_rels :: "elfclass \<Rightarrow> nat \<Rightarrow> nat \<Rightarrow> world \<Rightarrow> world" where
  \<comment> \<open>lines 176-185, for the indices drawn at lines 174-175 (both inside \<open>relocs\<close>)\<close>
  "swap_rels c aIdx bIdx w =
     (let a = snd (relocs (elf w) ! aIdx);
          b = snd (relocs (elf w) ! bIdx);
          (a, b) = (a\<lparr>r_offset := r_offset b\<rparr>, b\<lparr>r_offset := r_offset a\<rparr>);
          out1 = seekp (fst (relocs (elf w) ! aIdx)) (outFile w);
          out2 = write_out (encode_Rel c a) out1;
          out3 = seekp (fst (relocs (elf w) ! bIdx)) out2;
          out4 = write_out (encode_Rel c b) out3
      in w\<lparr>outFile := out4,
           cout := cout w @ ''Swapped reloc '' @ show_dec aIdx @ '' with '' @ show_dec bIdx
                     @ endl\<rparr>)"

definition swap_relas :: "elfclass \<Rightarrow> nat \<Rightarrow> nat \<Rightarrow> world \<Rightarrow> world" where
  \<comment> \<open>lines 189-200, for the indices drawn at lines 187-188 (both inside \<open>relocsAddends\<close>)\<close>
  "swap_relas c aIdx bIdx w =
     (let a = snd (relocsAddends (elf w) ! aIdx);
          b = snd (relocsAddends (elf w) ! bIdx);
          (a, b) = (a\<lparr>r_offset := r_offset b\<rparr>, b\<lparr>r_offset := r_offset a\<rparr>);
          (a, b) = (a\<lparr>r_addend := r_addend b\<rparr>, b\<lparr>r_addend := r_addend a\<rparr>);
          out1 = seekp (fst (relocsAddends (elf w) ! aIdx)) (outFile w);
          out2 = write_out (encode_Rela c a) out1;
          out3 = seekp (fst (relocsAddends (elf w) ! bIdx)) out2;
          out4 = write_out (encode_Rela c b) out3
      in w\<lparr>outFile := out4,
           cout := cout w @ ''Swapped reloc with addend '' @ show_dec aIdx @ '' with ''
                     @ show_dec bIdx @ endl\<rparr>)"

definition swap_round :: "elfclass \<Rightarrow> (nat \<Rightarrow> nat) \<Rightarrow> world \<Rightarrow> world option" where
  \<comment> \<open>the body of the loop of lines 161-202; \<open>None\<close> is the \<open>return\<close> of line 170\<close>
  "swap_round c rnd w =
     (case (if relocs (elf w) \<noteq> [] \<and> relocsAddends (elf w) \<noteq> []
            then (let (r, w') = rand rnd w in Some (r mod 2 \<noteq> 0, w'))
            else if relocs (elf w) \<noteq> [] then Some (True, w)
            else if relocsAddends (elf w) \<noteq> [] then Some (False, w)
            else None) of
        None \<Rightarrow> None
      | Some (useRelocs, w1) \<Rightarrow>
          if useRelocs then
            (let (ra, w2) = rand rnd w1;
                 aIdx = ra mod length (relocs (elf w));
                 (rb, w3) = rand rnd w2;
                 bIdx = rb mod length (relocs (elf w))
             in Some (swap_rels c aIdx bIdx w3))
          else
            (let (ra, w2) = rand rnd w1;
                 aIdx = ra mod length (relocsAddends (elf w));
                 (rb, w3) = rand rnd w2;
                 bIdx = rb mod length (relocsAddends (elf w))
             in Some (swap_relas c aIdx bIdx w3)))"

fun swap_rounds :: "elfclass \<Rightarrow> (nat \<Rightarrow> nat) \<Rightarrow> nat \<Rightarrow> world \<Rightarrow> world" where
  \<comment> \<open>the loop of lines 161-202, for the remaining number of iterations\<close>
  "swap_rounds c rnd 0 w = w"
| "swap_rounds c rnd (Suc k) w =
     (case swap_round c rnd w of
        None \<Rightarrow> w
      | Some w' \<Rightarrow> swap_rounds c rnd k w')"

definition swapN :: "elfclass \<Rightarrow> (nat \<Rightarrow> nat) \<Rightarrow> int \<Rightarrow> world \<Rightarrow> error + world" where
  \<comment> \<open>the \<open>assert\<close> of line 159 is checked, as in a build without \<open>NDEBUG\<close>\<close>
  "swapN c rnd n w =
     (if \<not> n > 0 then Inl (AssertFail ''Invalid input.'')
      else Inr (swap_rounds c rnd (nat n) w))"

subsection \<open>The program\<close>

text \<open>
  \<open>main\<close> from line 304 on, for parsed options and one file name argument: the dump
  flag, the swap count, the output file name if \<open>-o\<close> was given, and the input file name.
  The file system is a map from names to contents, and two names denote the same file
  when they are equal; opening the output file succeeds, and copying onto it succeeds
  unless it is the input file. The result is what \<open>std::cout\<close> holds and the file
  system at exit.
\<close>

definition main :: "(nat \<Rightarrow> nat) \<Rightarrow> bool \<Rightarrow> int \<Rightarrow> string option \<Rightarrow> string
    \<Rightarrow> (string \<rightharpoonup> string) \<Rightarrow> error + string \<times> (string \<rightharpoonup> string)" where
  "main rnd doDump nSwaps0 outFname fname fs =
     (let nSwaps = (if nSwaps0 < 0 then 0 else nSwaps0) in
      case fs fname of
        None \<Rightarrow> Inl (ErrExit (''Failed to open input file '' @ fname))
      | Some bytes \<Rightarrow>
          (case parseElf (open_in bytes) of
             Inl e \<Rightarrow> Inl e
           | Inr (c, elf0) \<Rightarrow>
               (case (if doDump then dumpRelocs c elf0 [] else Inr []) of
                  Inl e \<Rightarrow> Inl e
                | Inr out \<Rightarrow>
                    (case outFname of
                       None \<Rightarrow> Inr (out, fs)
                     | Some oname \<Rightarrow>
                         if nSwaps > 0 then
                           (let fs1 = fs(oname \<mapsto> [])
                            in case fs1 fname of
                                 None \<Rightarrow> Inl FilesystemError
                               | Some src \<Rightarrow>
                                   if oname = fname then Inl FilesystemError
                                   else
                                     (case swapN c rnd nSwaps
                                             \<lparr>elf = elf0,
                                              outFile = \<lparr>obuf = src, ppos = 0, ofail = False\<rparr>,
                                              cout = out, rand_calls = 0\<rparr> of
                                        Inl e \<Rightarrow> Inl e
                                      | Inr w \<Rightarrow> Inr (cout w, fs1(oname \<mapsto> obuf (outFile w)))))
                         else Inr (out, fs)))))"

subsection \<open>Notions used to state the properties\<close>

definition slice :: "string \<Rightarrow> nat \<Rightarrow> nat \<Rightarrow> string" where
  \<comment> \<open>the \<open>n\<close> bytes of a file from offset \<open>off\<close> on\<close>
  "slice buf off n = take n (drop off buf)"

definition readable :: "istream \<Rightarrow> bool" where
  \<comment> \<open>a good stream over a file whose offsets are valid \<open>streamoff\<close> values\<close>
  "readable fp \<longleftrightarrow> \<not> failbit fp \<and> length (content fp) < 2 ^ 63"

definition writable :: "ostream \<Rightarrow> bool" where
  "writable out \<longleftrightarrow> \<not> ofail out \<and> length (obuf out) < 2 ^ 63"

definition Rel_fits :: "elfclass \<Rightarrow> Rel \<Rightarrow> bool" where
  \<comment> \<open>the fields have the width of the class, as every decoded entry's fields do\<close>
  "Rel_fits c r \<longleftrightarrow> r_offset r < 256 ^ wordsize c \<and> r_info r < 256 ^ wordsize c"

definition Rela_fits :: "elfclass \<Rightarrow> Rela \<Rightarrow> bool" where
  "Rela_fits c r \<longleftrightarrow> r_offset r < 256 ^ wordsize c \<and> r_info r < 256 ^ wordsize c
     \<and> r_addend r < 256 ^ wordsize c"

definition disjoint_at :: "nat \<Rightarrow> nat \<Rightarrow> nat \<Rightarrow> bool" where
  \<comment> \<open>two byte ranges of length \<open>n\<close> that do not overlap\<close>
  "disjoint_at p q n \<longleftrightarrow> p + n \<le> q \<or> q + n \<le> p"

definition Rel_at :: "elfclass \<Rightarrow> ostream \<Rightarrow> nat \<Rightarrow> Rel" where
  \<comment> \<open>the entry found in the output file at an offset\<close>
  "Rel_at c out off = decode_Rel c (slice (obuf out) off (sizeof_Rel c))"

definition Rela_at :: "elfclass \<Rightarrow> ostream \<Rightarrow> nat \<Rightarrow> Rela" where
  "Rela_at c out off = decode_Rela c (slice (obuf out) off (sizeof_Rela c))"

definition rel_pair :: "elfclass \<Rightarrow> world \<Rightarrow> nat \<Rightarrow> nat \<Rightarrow> bool" where
  \<comment> \<open>two distinct entries of \<open>relocs\<close> whose recorded byte ranges lie in the output
      file and do not overlap\<close>
  "rel_pair c w a b \<longleftrightarrow>
     a < length (relocs (elf w)) \<and> b < length (relocs (elf w)) \<and> a \<noteq> b
     \<and> writable (outFile w)
     \<and> fst (relocs (elf w) ! a) + sizeof_Rel c \<le> length (obuf (outFile w))
     \<and> fst (relocs (elf w) ! b) + sizeof_Rel c \<le> length (obuf (outFile w))
     \<and> disjoint_at (fst (relocs (elf w) ! a)) (fst (relocs (elf w) ! b)) (sizeof_Rel c)
     \<and> Rel_fits c (snd (relocs (elf w) ! a)) \<and> Rel_fits c (snd (relocs (elf w) ! b))"

definition rela_pair :: "elfclass \<Rightarrow> world \<Rightarrow> nat \<Rightarrow> nat \<Rightarrow> bool" where
  "rela_pair c w a b \<longleftrightarrow>
     a < length (relocsAddends (elf w)) \<and> b < length (relocsAddends (elf w)) \<and> a \<noteq> b
     \<and> writable (outFile w)
     \<and> fst (relocsAddends (elf w) ! a) + sizeof_Rela c \<le> length (obuf (outFile w))
     \<and> fst (relocsAddends (elf w) ! b) + sizeof_Rela c \<le> length (obuf (outFile w))
     \<and> disjoint_at (fst (relocsAddends (elf w) ! a)) (fst (relocsAddends (elf w) ! b))
           (sizeof_Rela c)
     \<and> Rela_fits c (snd (relocsAddends (elf w) ! a))
     \<and> Rela_fits c (snd (relocsAddends (elf w) ! b))"

definition rel_in_file :: "elfclass \<Rightarrow> world \<Rightarrow> nat \<Rightarrow> nat \<Rightarrow> bool" where
  \<comment> \<open>two entries of \<open>relocs\<close>, distinct or not, whose recorded byte ranges lie in the
      output file, overlapping or not\<close>
  "rel_in_file c w a b \<longleftrightarrow>
     a < length (relocs (elf w)) \<and> b < length (relocs (elf w))
     \<and> fst (relocs (elf w) ! a) + sizeof_Rel c \<le> length (obuf (outFile w))
     \<and> fst (relocs (elf w) ! b) + sizeof_Rel c \<le> length (obuf (outFile w))"

definition rela_in_file :: "elfclass \<Rightarrow> world \<Rightarrow> nat \<Rightarrow> nat \<Rightarrow> bool" where
  "rela_in_file c w a b \<longleftrightarrow>
     a < length (relocsAddends (elf w)) \<and> b < length (relocsAddends (elf w))
     \<and> fst (relocsAddends (elf w) ! a) + sizeof_Rela c \<le> length (obuf (outFile w))
     \<and> fst (relocsAddends (elf w) ! b) + sizeof_Rela c \<le> length (obuf (outFile w))"



definition rel_entries :: "elfclass \<Rightarrow> string \<Rightarrow> nat \<Rightarrow> nat \<Rightarrow> (nat \<times> Rel) list" where
  \<comment> \<open>\<open>n\<close> consecutive entries of a file from offset \<open>off\<close> on, each with its offset\<close>
  "rel_entries c bytes off n =
     map (\<lambda>i. (off + i * sizeof_Rel c,
               decode_Rel c (slice bytes (off + i * sizeof_Rel c) (sizeof_Rel c)))) [0..<n]"

definition rela_entries :: "elfclass \<Rightarrow> string \<Rightarrow> nat \<Rightarrow> nat \<Rightarrow> (nat \<times> Rela) list" where
  "rela_entries c bytes off n =
     map (\<lambda>i. (off + i * sizeof_Rela c,
               decode_Rela c (slice bytes (off + i * sizeof_Rela c) (sizeof_Rela c)))) [0..<n]"

definition sym_entries :: "string \<Rightarrow> nat \<Rightarrow> nat \<Rightarrow> nat \<Rightarrow> Sym list" where
  "sym_entries bytes off entsize n =
     map (\<lambda>i. decode_Sym (slice bytes (off + i * entsize) entsize)) [0..<n]"

definition next_shdr :: "elfclass \<Rightarrow> istream \<Rightarrow> Shdr" where
  \<comment> \<open>the section header at the get position\<close>
  "next_shdr c fp = decode_Shdr c (slice (content fp) (gpos fp) (sizeof_Shdr c))"

definition section_named :: "ElfT \<Rightarrow> Shdr \<Rightarrow> string \<Rightarrow> bool" where
  "section_named m shdr nm \<longleftrightarrow> isSection m (sh_name shdr) nm = Inr True"

definition recognized :: "ElfT \<Rightarrow> Shdr \<Rightarrow> bool" where
  \<comment> \<open>a section that matches a recognized name with the matching type\<close>
  "recognized m shdr \<longleftrightarrow>
     (sh_type shdr = SHT_REL \<or> sh_type shdr = SHT_RELA)
       \<and> (section_named m shdr ''.rel.dyn'' \<or> section_named m shdr ''.rela.dyn''
            \<or> section_named m shdr ''.rela.plt'')
     \<or> sh_type shdr = SHT_STRTAB \<and> section_named m shdr ''.dynstr''
     \<or> sh_type shdr = SHT_DYNSYM \<and> section_named m shdr ''.dynsym''"

definition section_fits :: "elfclass \<Rightarrow> Shdr \<Rightarrow> string \<Rightarrow> bool" where
  \<comment> \<open>the section's data lies inside the file (and a symbol fills \<open>st_name\<close> and fits
      a \<open>SymT\<close>), so that no read fails\<close>
  "section_fits c shdr bytes \<longleftrightarrow>
     (if sh_type shdr = SHT_STRTAB then sh_offset shdr + sh_size shdr \<le> length bytes
      else sh_entsize shdr \<noteq> 0
        \<and> (if sh_type shdr = SHT_REL
             then sh_offset shdr + (sh_size shdr div sh_entsize shdr) * sizeof_Rel c
                    \<le> length bytes
           else if sh_type shdr = SHT_RELA
             then sh_offset shdr + (sh_size shdr div sh_entsize shdr) * sizeof_Rela c
                    \<le> length bytes
           else 4 \<le> sh_entsize shdr \<and> sh_entsize shdr \<le> sizeof_Sym c
                  \<and> sh_size shdr div sh_entsize shdr < 2 ^ 31
                  \<and> sh_offset shdr + (sh_size shdr div sh_entsize shdr) * sh_entsize shdr
                       \<le> length bytes))"

definition honored :: "elfclass \<Rightarrow> Shdr \<Rightarrow> string \<Rightarrow> ElfT \<Rightarrow> ElfT" where
  \<comment> \<open>what loading a recognized section does to the model, whatever the model holds:
      relocations and symbols are appended, the dynamic string table is replaced\<close>
  "honored c shdr bytes m =
     (if sh_type shdr = SHT_REL
        then m\<lparr>relocs := relocs m @ rel_entries c bytes (sh_offset shdr)
                                       (sh_size shdr div sh_entsize shdr)\<rparr>
      else if sh_type shdr = SHT_RELA
        then m\<lparr>relocsAddends := relocsAddends m @ rela_entries c bytes (sh_offset shdr)
                                                     (sh_size shdr div sh_entsize shdr)\<rparr>
      else if sh_type shdr = SHT_STRTAB
        then m\<lparr>stringTable := slice bytes (sh_offset shdr) (sh_size shdr)\<rparr>
      else m\<lparr>symbolTable := symbolTable m @ sym_entries bytes (sh_offset shdr)
                                                 (sh_entsize shdr)
                                                 (sh_size shdr div sh_entsize shdr)\<rparr>)"

definition sym_index :: "elfclass \<Rightarrow> nat \<Rightarrow> nat" where
  \<comment> \<open>the symbol index of an info value: \<open>ELF32_R_SYM\<close> for the 32-bit class and
      \<open>ELF64_R_SYM\<close> for the 64-bit class\<close>
  "sym_index c rInfo =
     (case c of ELFCLASS32 \<Rightarrow> (rInfo mod 2 ^ 64) div 2 ^ 8
              | ELFCLASS64 \<Rightarrow> (rInfo mod 2 ^ 64) div 2 ^ 32)"

definition name_at :: "string \<Rightarrow> nat \<Rightarrow> string" where
  \<comment> \<open>the null-terminated name found in a string table at an index\<close>
  "name_at tab k = takeWhile (\<lambda>b. b \<noteq> NUL) (drop k tab)"

subsection \<open>The text of the dump in closed form\<close>






subsection \<open>The dump, as the specification describes it\<close>













subsection \<open>Example images and states\<close>

text \<open>
  A 32-bit image of 446 bytes: the header, seven section headers (\<open>.rel.dyn\<close>,
  \<open>.rela.dyn\<close>, \<open>.rela.plt\<close>, \<open>.dynsym\<close>, \<open>.dynstr\<close>, a second \<open>.dynstr\<close>,
  \<open>.shstrtab\<close>), the section names, one relocation without addend, two with, one
  symbol whose name index is 1, and the two dynamic string tables.
\<close>

definition zeros :: "nat \<Rightarrow> string" where
  "zeros n = replicate n NUL"

definition mk_Ehdr :: "elfclass \<Rightarrow> nat \<Rightarrow> nat \<Rightarrow> nat \<Rightarrow> nat \<Rightarrow> string" where
  \<comment> \<open>the bytes of a header with the given \<open>e_shoff\<close>, \<open>e_shentsize\<close>, \<open>e_shnum\<close>,
      \<open>e_shstrndx\<close> and zero elsewhere\<close>
  "mk_Ehdr c shoff shentsize shnum shstrndx =
     ELFMAG @ [case c of ELFCLASS32 \<Rightarrow> CHR 0x01 | ELFCLASS64 \<Rightarrow> CHR 0x02] @ zeros 11
       @ zeros 8 @ zeros (2 * wordsize c) @ le_bytes (wordsize c) shoff
       @ zeros 10 @ le_bytes 2 shentsize @ le_bytes 2 shnum @ le_bytes 2 shstrndx"

definition mk_Shdr :: "elfclass \<Rightarrow> nat \<Rightarrow> nat \<Rightarrow> nat \<Rightarrow> nat \<Rightarrow> nat \<Rightarrow> string" where
  \<comment> \<open>the bytes of a section header with the given \<open>sh_name\<close>, \<open>sh_type\<close>,
      \<open>sh_offset\<close>, \<open>sh_size\<close>, \<open>sh_entsize\<close> and zero elsewhere\<close>
  "mk_Shdr c name type off sz entsize =
     le_bytes 4 name @ le_bytes 4 type @ zeros (2 * wordsize c)
       @ le_bytes (wordsize c) off @ le_bytes (wordsize c) sz
       @ zeros 8 @ zeros (wordsize c) @ le_bytes (wordsize c) entsize"

definition ex_names :: string where
  "ex_names = NUL # ''.rel.dyn'' @ NUL # ''.rela.dyn'' @ NUL # ''.rela.plt'' @ NUL # ''.dynsym''
     @ NUL # ''.dynstr'' @ NUL # ''.shstrtab'' @ [NUL]"

definition ex_R :: Rel where
  "ex_R = \<lparr>r_offset = 0x30, r_info = 0x008\<rparr>"

definition ex_X :: Rela where
  "ex_X = \<lparr>r_offset = 0x10, r_info = 0x001, r_addend = 0\<rparr>"

definition ex_Y :: Rela where
  "ex_Y = \<lparr>r_offset = 0x20, r_info = 0x107, r_addend = 4\<rparr>"

definition ex_foo :: string where
  "ex_foo = NUL # ''foo'' @ [NUL]"

definition ex_bar :: string where
  "ex_bar = NUL # ''bar'' @ [NUL]"

definition ex_image :: string where
  "ex_image = mk_Ehdr ELFCLASS32 52 40 7 6
     @ mk_Shdr ELFCLASS32 1 SHT_REL 388 8 8
     @ mk_Shdr ELFCLASS32 10 SHT_RELA 396 12 12
     @ mk_Shdr ELFCLASS32 20 SHT_RELA 408 12 12
     @ mk_Shdr ELFCLASS32 30 SHT_DYNSYM 420 16 16
     @ mk_Shdr ELFCLASS32 38 SHT_STRTAB 436 5 0
     @ mk_Shdr ELFCLASS32 38 SHT_STRTAB 441 5 0
     @ mk_Shdr ELFCLASS32 46 SHT_STRTAB 332 56 0
     @ ex_names
     @ encode_Rel ELFCLASS32 ex_R
     @ encode_Rela ELFCLASS32 ex_X
     @ encode_Rela ELFCLASS32 ex_Y
     @ le_bytes 4 1 @ zeros 12
     @ ex_foo
     @ ex_bar"

definition ex_model :: ElfT where
  \<comment> \<open>what parsing \<open>ex_image\<close> yields\<close>
  "ex_model = \<lparr>relocs = [(388, ex_R)], relocsAddends = [(396, ex_X), (408, ex_Y)],
     symbolTable = [\<lparr>st_name = 1\<rparr>], stringTable = ex_bar,
     sectionStringTable = ex_names\<rparr>"

definition ex_fp :: "nat \<Rightarrow> istream" where
  \<comment> \<open>a good stream over \<open>ex_image\<close> at a position\<close>
  "ex_fp p = \<lparr>content = ex_image, gpos = p, failbit = False\<rparr>"

definition ex_fs :: "string \<rightharpoonup> string" where
  \<comment> \<open>a file system that holds \<open>ex_image\<close> as \<open>in.elf\<close> and nothing else\<close>
  "ex_fs = [''in.elf'' \<mapsto> ex_image]"

definition ex_R0 :: Rel where
  "ex_R0 = \<lparr>r_offset = 0x1000, r_info = 0x107\<rparr>"

definition ex_R1 :: Rel where
  "ex_R1 = \<lparr>r_offset = 0x2000, r_info = 0x207\<rparr>"

definition ex_rel_world :: world where
  \<comment> \<open>a 32-bit model of two relocations without addend and an output file that is a
      copy of the 16 bytes they were read from\<close>
  "ex_rel_world =
     \<lparr>elf = \<lparr>relocs = [(0, ex_R0), (8, ex_R1)], relocsAddends = [], symbolTable = [],
              stringTable = [], sectionStringTable = []\<rparr>,
      outFile = \<lparr>obuf = encode_Rel ELFCLASS32 ex_R0 @ encode_Rel ELFCLASS32 ex_R1,
                 ppos = 0, ofail = False\<rparr>,
      cout = [], rand_calls = 0\<rparr>"

definition ex_rel_world1 :: world where
  \<comment> \<open>\<open>ex_rel_world\<close> after a round on the entries 0 and 1\<close>
  "ex_rel_world1 =
     ex_rel_world
       \<lparr>outFile := \<lparr>obuf = encode_Rel ELFCLASS32 \<lparr>r_offset = 0x2000, r_info = 0x107\<rparr>
                           @ encode_Rel ELFCLASS32 \<lparr>r_offset = 0x1000, r_info = 0x207\<rparr>,
                    ppos = 16, ofail = False\<rparr>,
        cout := ''Swapped reloc 0 with 1'' @ endl, rand_calls := 2\<rparr>"


definition ex_rnd :: "nat \<Rightarrow> nat" where
  \<comment> \<open>values of \<open>rand()\<close>: 0, 1, 0, 0, ...\<close>
  "ex_rnd k = (if k = 1 then 1 else 0)"

definition ex_SX :: Rela where
  "ex_SX = \<lparr>r_offset = 0x10, r_info = 0x101, r_addend = 0\<rparr>"

definition ex_SY :: Rela where
  "ex_SY = \<lparr>r_offset = 0x20, r_info = 0x202, r_addend = 4\<rparr>"

definition ex_pair_world :: world where
  \<comment> \<open>a 64-bit model of two relocations without addend and the two relocations with
      addend of the specification's scenario, over a copy of the 80 bytes they were
      read from\<close>
  "ex_pair_world =
     \<lparr>elf = \<lparr>relocs = [(0, ex_R0), (16, ex_R1)], relocsAddends = [(32, ex_SX), (56, ex_SY)],
              symbolTable = [], stringTable = [], sectionStringTable = []\<rparr>,
      outFile = \<lparr>obuf = encode_Rel ELFCLASS64 ex_R0 @ encode_Rel ELFCLASS64 ex_R1
                          @ encode_Rela ELFCLASS64 ex_SX @ encode_Rela ELFCLASS64 ex_SY,
                 ppos = 0, ofail = False\<rparr>,
      cout = [], rand_calls = 0\<rparr>"

definition ex_empty_world :: world where
  \<comment> \<open>a model without relocations over a copy of \<open>ex_image\<close>\<close>
  "ex_empty_world =
     \<lparr>elf = empty_ElfT, outFile = \<lparr>obuf = ex_image, ppos = 0, ofail = False\<rparr>,
      cout = [], rand_calls = 0\<rparr>"

definition ex_short_strtab :: ElfT where
  \<comment> \<open>one symbol whose name index 5 lies outside the two-byte string table\<close>
  "ex_short_strtab = \<lparr>relocs = [], relocsAddends = [], symbolTable = [\<lparr>st_name = 5\<rparr>],
     stringTable = ''a'' @ [NUL], sectionStringTable = []\<rparr>"

definition ex_overlap_bytes :: string where
  \<comment> \<open>sixteen bytes, the 32-bit words \<open>0x10\<close>, \<open>1\<close>, \<open>0x20\<close>, \<open>3\<close>\<close>
  "ex_overlap_bytes = le_bytes 4 0x10 @ le_bytes 4 1 @ le_bytes 4 0x20 @ le_bytes 4 3"

definition ex_overlap_shdr :: "nat \<Rightarrow> Shdr" where
  \<comment> \<open>the header of a section of one 32-bit relocation with addend at a file offset\<close>
  "ex_overlap_shdr off =
     \<lparr>sh_name = 0, sh_type = SHT_RELA, sh_offset = off, sh_size = 12, sh_entsize = 12\<rparr>"

definition ex_OA :: Rela where
  "ex_OA = \<lparr>r_offset = 0x10, r_info = 1, r_addend = 0x20\<rparr>"

definition ex_OB :: Rela where
  "ex_OB = \<lparr>r_offset = 1, r_info = 0x20, r_addend = 3\<rparr>"

definition ex_overlap_world :: world where
  \<comment> \<open>the entries of two such sections at the offsets 0 and 4, whose byte ranges
      overlap, over a copy of the bytes they were read from\<close>
  "ex_overlap_world =
     \<lparr>elf = empty_ElfT\<lparr>relocsAddends := [(0, ex_OA), (4, ex_OB)]\<rparr>,
      outFile = \<lparr>obuf = ex_overlap_bytes, ppos = 0, ofail = False\<rparr>,
      cout = [], rand_calls = 0\<rparr>"

definition ex_overlap_world1 :: world where
  \<comment> \<open>\<open>ex_overlap_world\<close> after a round on the entries 0 and 1\<close>
  "ex_overlap_world1 =
     ex_overlap_world
       \<lparr>outFile := \<lparr>obuf = le_bytes 4 1 @ le_bytes 4 0x10 @ le_bytes 4 0x20 @ le_bytes 4 0x20,
                    ppos = 16, ofail = False\<rparr>,
        cout := ''Swapped reloc with addend 0 with 1'' @ endl, rand_calls := 2\<rparr>"

section \<open>Lemmas\<close>

subsection \<open>Bytes\<close>

lemma length_le_bytes [simp]: "length (le_bytes k v) = k"
  by (induction k arbitrary: v) auto

lemma le_val_le_bytes: "le_val (le_bytes k v) = v mod 256 ^ k"
proof (induction k arbitrary: v)
  case 0
  then show ?case by simp
next
  case (Suc k)
  have "v mod 256 + 256 * (v div 256 mod 256 ^ k) = v mod (256 * 256 ^ k)"
    by (simp add: mod_mult2_eq)
  with Suc show ?case by simp
qed

lemma le_val_le_bytes_id: "v < 256 ^ k \<Longrightarrow> le_val (le_bytes k v) = v"
  by (simp add: le_val_le_bytes)

lemma le_val_bound: "le_val bs < 256 ^ length bs"
proof (induction bs)
  case Nil
  then show ?case by simp
next
  case (Cons b bs)
  have "of_char b + 256 * le_val bs < 256 + 256 * le_val bs"
    by simp
  also have "\<dots> = 256 * (le_val bs + 1)"
    by simp
  also have "\<dots> \<le> 256 * 256 ^ length bs"
    using Cons by (simp add: Suc_leI del: mult_Suc_right)
  finally show ?case by simp
qed

lemma decode_encode_Rel:
  "r_offset r < 256 ^ wordsize c \<Longrightarrow> r_info r < 256 ^ wordsize c
    \<Longrightarrow> decode_Rel c (encode_Rel c r) = r"
  by (simp add: decode_Rel_def encode_Rel_def field_def le_val_le_bytes_id)

lemma decode_encode_Rela:
  "r_offset r < 256 ^ wordsize c \<Longrightarrow> r_info r < 256 ^ wordsize c
    \<Longrightarrow> r_addend r < 256 ^ wordsize c
    \<Longrightarrow> decode_Rela c (encode_Rela c r) = r"
  by (simp add: decode_Rela_def encode_Rela_def field_def le_val_le_bytes_id)

lemma length_encode_Rel [simp]: "length (encode_Rel c r) = sizeof_Rel c"
  by (simp add: encode_Rel_def sizeof_Rel_def)

lemma length_encode_Rela [simp]: "length (encode_Rela c r) = sizeof_Rela c"
  by (simp add: encode_Rela_def sizeof_Rela_def)

lemma length_overwrite:
  "p + length bs \<le> length buf \<Longrightarrow> length (overwrite buf p bs) = length buf"
  by (simp add: overwrite_def)

lemma slice_overwrite_same:
  "p + length bs \<le> length buf \<Longrightarrow> take (length bs) (drop p (overwrite buf p bs)) = bs"
  by (simp add: overwrite_def)

lemma slice_take: "q + n \<le> p \<Longrightarrow> take n (drop q (take p xs)) = take n (drop q xs)"
  by (simp add: drop_take min_absorb1)

lemma slice_overwrite_before:
  assumes "p + length bs \<le> length buf" "q + n \<le> p"
  shows "take n (drop q (overwrite buf p bs)) = take n (drop q buf)"
proof -
  have "overwrite buf p bs = take p buf @ (bs @ drop (p + length bs) buf)"
    using assms(1) by (simp add: overwrite_def)
  moreover have "q + n \<le> length (take p buf)"
    using assms by simp
  ultimately have "take n (drop q (overwrite buf p bs)) = take n (drop q (take p buf))"
    by simp
  then show ?thesis
    using assms(2) by (simp add: slice_take)
qed

lemma slice_overwrite_after:
  assumes "p + length bs \<le> length buf" "p + length bs \<le> q"
  shows "take n (drop q (overwrite buf p bs)) = take n (drop q buf)"
proof -
  have "drop q (overwrite buf p bs) = drop (q - p - length bs) (drop (p + length bs) buf)"
    using assms by (simp add: overwrite_def)
  also have "\<dots> = drop q buf"
    using assms by simp
  finally show ?thesis by simp
qed


subsection \<open>Streams\<close>

lemma length_slice [simp]: "length (slice buf p n) = min n (length buf - p)"
  by (simp add: slice_def)

lemma streamoff_small: "p < 2 ^ 63 \<Longrightarrow> streamoff p = int p"
  by (simp add: streamoff_def Let_def)

lemma put_at:
  assumes "writable out" "p + length bs \<le> length (obuf out)"
  shows "write_out bs (seekp p out)
           = out\<lparr>obuf := overwrite (obuf out) p bs, ppos := p + length bs\<rparr>"
proof -
  have "p < 2 ^ 63" using assms by (simp add: writable_def)
  then have "streamoff p = int p" "p mod 2 ^ 64 = p"
    by (simp_all add: streamoff_small)
  then show ?thesis
    using assms by (simp add: write_out_def seekp_def writable_def)
qed

lemma writable_put:
  assumes "writable out" "p + length bs \<le> length (obuf out)"
  shows "writable (write_out bs (seekp p out))"
    and "length (obuf (write_out bs (seekp p out))) = length (obuf out)"
  using assms by (simp_all add: put_at) (simp_all add: writable_def length_overwrite)

lemma two_puts:
  assumes w: "writable out"
    and ina: "p + length as \<le> length (obuf out)"
    and inb: "q + length bs \<le> length (obuf out)"
  shows "obuf (write_out bs (seekp q (write_out as (seekp p out))))
           = overwrite (overwrite (obuf out) p as) q bs"
proof -
  let ?o1 = "write_out as (seekp p out)"
  have o1: "?o1 = out\<lparr>obuf := overwrite (obuf out) p as, ppos := p + length as\<rparr>"
    using w ina by (rule put_at)
  have "writable ?o1" "length (obuf ?o1) = length (obuf out)"
    using w ina by (rule writable_put)+
  then have "write_out bs (seekp q ?o1)
      = ?o1\<lparr>obuf := overwrite (obuf ?o1) q bs, ppos := q + length bs\<rparr>"
    using inb by (simp add: put_at)
  then show ?thesis by (simp add: o1)
qed

lemma two_puts_disjoint:
  assumes "p + n \<le> length buf" "q + n \<le> length buf" "length as = n" "length bs = n"
    and "disjoint_at p q n"
  shows "slice (overwrite (overwrite buf p as) q bs) p n = as"
    and "slice (overwrite (overwrite buf p as) q bs) q n = bs"
    and "length (overwrite (overwrite buf p as) q bs) = length buf"
proof -
  let ?b1 = "overwrite buf p as"
  have l1: "length ?b1 = length buf"
    using assms by (simp add: length_overwrite)
  have "take n (drop p (overwrite ?b1 q bs)) = take n (drop p ?b1)"
    using assms l1 unfolding disjoint_at_def
    by (auto simp: slice_overwrite_before slice_overwrite_after)
  also have "\<dots> = as"
    using assms slice_overwrite_same [of p as buf] by simp
  finally show "slice (overwrite ?b1 q bs) p n = as"
    by (simp add: slice_def)
  show "slice (overwrite ?b1 q bs) q n = bs"
    using assms l1 slice_overwrite_same [of q bs ?b1] by (simp add: slice_def)
  show "length (overwrite ?b1 q bs) = length buf"
    using assms l1 by (simp add: length_overwrite)
qed

lemma swap_rels_outFile:
  "outFile (swap_rels c a b w) =
     write_out (encode_Rel c ((snd (relocs (elf w) ! b))\<lparr>r_offset := r_offset (snd (relocs (elf w) ! a))\<rparr>))
       (seekp (fst (relocs (elf w) ! b))
         (write_out (encode_Rel c ((snd (relocs (elf w) ! a))\<lparr>r_offset := r_offset (snd (relocs (elf w) ! b))\<rparr>))
           (seekp (fst (relocs (elf w) ! a)) (outFile w))))"
  by (simp add: swap_rels_def Let_def)

lemma swap_relas_outFile:
  "outFile (swap_relas c a b w) =
     write_out (encode_Rela c ((snd (relocsAddends (elf w) ! b))
                  \<lparr>r_offset := r_offset (snd (relocsAddends (elf w) ! a)),
                   r_addend := r_addend (snd (relocsAddends (elf w) ! a))\<rparr>))
       (seekp (fst (relocsAddends (elf w) ! b))
         (write_out (encode_Rela c ((snd (relocsAddends (elf w) ! a))
                      \<lparr>r_offset := r_offset (snd (relocsAddends (elf w) ! b)),
                       r_addend := r_addend (snd (relocsAddends (elf w) ! b))\<rparr>))
           (seekp (fst (relocsAddends (elf w) ! a)) (outFile w))))"
  by (simp add: swap_relas_def Let_def)

lemma swap_elf [simp]: "elf (swap_rels c a b w) = elf w" "elf (swap_relas c a b w) = elf w"
  by (simp_all add: swap_rels_def swap_relas_def Let_def)

subsection \<open>One round on two distinct entries\<close>

lemma swap_rels_distinct:
  assumes "rel_pair c w a b"
  shows "Rel_at c (outFile (swap_rels c a b w)) (fst (relocs (elf w) ! a))
           = \<lparr>r_offset = r_offset (snd (relocs (elf w) ! b)),
              r_info = r_info (snd (relocs (elf w) ! a))\<rparr>"
    and "Rel_at c (outFile (swap_rels c a b w)) (fst (relocs (elf w) ! b))
           = \<lparr>r_offset = r_offset (snd (relocs (elf w) ! a)),
              r_info = r_info (snd (relocs (elf w) ! b))\<rparr>"
    and "length (obuf (outFile (swap_rels c a b w))) = length (obuf (outFile w))"
proof -
  let ?A = "snd (relocs (elf w) ! a)" and ?B = "snd (relocs (elf w) ! b)"
  let ?p = "fst (relocs (elf w) ! a)" and ?q = "fst (relocs (elf w) ! b)"
  let ?A' = "?A\<lparr>r_offset := r_offset ?B\<rparr>" and ?B' = "?B\<lparr>r_offset := r_offset ?A\<rparr>"
  let ?n = "sizeof_Rel c"
  from assms have w: "writable (outFile w)"
    and ina: "?p + ?n \<le> length (obuf (outFile w))"
    and inb: "?q + ?n \<le> length (obuf (outFile w))"
    and dis: "disjoint_at ?p ?q ?n"
    and fa: "Rel_fits c ?A" and fb: "Rel_fits c ?B"
    by (simp_all add: rel_pair_def)
  have out: "obuf (outFile (swap_rels c a b w))
      = overwrite (overwrite (obuf (outFile w)) ?p (encode_Rel c ?A')) ?q (encode_Rel c ?B')"
    using w ina inb by (simp add: swap_rels_outFile two_puts)
  have sa: "slice (obuf (outFile (swap_rels c a b w))) ?p ?n = encode_Rel c ?A'"
    and sb: "slice (obuf (outFile (swap_rels c a b w))) ?q ?n = encode_Rel c ?B'"
    and len: "length (obuf (outFile (swap_rels c a b w))) = length (obuf (outFile w))"
    unfolding out using ina inb dis by (simp_all add: two_puts_disjoint)
  have "decode_Rel c (encode_Rel c ?A') = ?A'" "decode_Rel c (encode_Rel c ?B') = ?B'"
    using fa fb by (simp_all add: decode_encode_Rel Rel_fits_def)
  then show "Rel_at c (outFile (swap_rels c a b w)) ?p
               = \<lparr>r_offset = r_offset ?B, r_info = r_info ?A\<rparr>"
    and "Rel_at c (outFile (swap_rels c a b w)) ?q
               = \<lparr>r_offset = r_offset ?A, r_info = r_info ?B\<rparr>"
    by (simp_all add: Rel_at_def sa sb)
  show "length (obuf (outFile (swap_rels c a b w))) = length (obuf (outFile w))"
    by (rule len)
qed

lemma swap_relas_distinct:
  assumes "rela_pair c w a b"
  shows "Rela_at c (outFile (swap_relas c a b w)) (fst (relocsAddends (elf w) ! a))
           = \<lparr>r_offset = r_offset (snd (relocsAddends (elf w) ! b)),
              r_info = r_info (snd (relocsAddends (elf w) ! a)),
              r_addend = r_addend (snd (relocsAddends (elf w) ! b))\<rparr>"
    and "Rela_at c (outFile (swap_relas c a b w)) (fst (relocsAddends (elf w) ! b))
           = \<lparr>r_offset = r_offset (snd (relocsAddends (elf w) ! a)),
              r_info = r_info (snd (relocsAddends (elf w) ! b)),
              r_addend = r_addend (snd (relocsAddends (elf w) ! a))\<rparr>"
    and "length (obuf (outFile (swap_relas c a b w))) = length (obuf (outFile w))"
proof -
  let ?A = "snd (relocsAddends (elf w) ! a)" and ?B = "snd (relocsAddends (elf w) ! b)"
  let ?p = "fst (relocsAddends (elf w) ! a)" and ?q = "fst (relocsAddends (elf w) ! b)"
  let ?A' = "?A\<lparr>r_offset := r_offset ?B, r_addend := r_addend ?B\<rparr>"
  let ?B' = "?B\<lparr>r_offset := r_offset ?A, r_addend := r_addend ?A\<rparr>"
  let ?n = "sizeof_Rela c"
  from assms have w: "writable (outFile w)"
    and ina: "?p + ?n \<le> length (obuf (outFile w))"
    and inb: "?q + ?n \<le> length (obuf (outFile w))"
    and dis: "disjoint_at ?p ?q ?n"
    and fa: "Rela_fits c ?A" and fb: "Rela_fits c ?B"
    by (simp_all add: rela_pair_def)
  have out: "obuf (outFile (swap_relas c a b w))
      = overwrite (overwrite (obuf (outFile w)) ?p (encode_Rela c ?A')) ?q (encode_Rela c ?B')"
    using w ina inb by (simp add: swap_relas_outFile two_puts)
  have sa: "slice (obuf (outFile (swap_relas c a b w))) ?p ?n = encode_Rela c ?A'"
    and sb: "slice (obuf (outFile (swap_relas c a b w))) ?q ?n = encode_Rela c ?B'"
    and len: "length (obuf (outFile (swap_relas c a b w))) = length (obuf (outFile w))"
    unfolding out using ina inb dis by (simp_all add: two_puts_disjoint)
  have "decode_Rela c (encode_Rela c ?A') = ?A'" "decode_Rela c (encode_Rela c ?B') = ?B'"
    using fa fb by (simp_all add: decode_encode_Rela Rela_fits_def)
  then show "Rela_at c (outFile (swap_relas c a b w)) ?p
               = \<lparr>r_offset = r_offset ?B, r_info = r_info ?A, r_addend = r_addend ?B\<rparr>"
    and "Rela_at c (outFile (swap_relas c a b w)) ?q
               = \<lparr>r_offset = r_offset ?A, r_info = r_info ?B, r_addend = r_addend ?A\<rparr>"
    by (simp_all add: Rela_at_def sa sb)
  show "length (obuf (outFile (swap_relas c a b w))) = length (obuf (outFile w))"
    by (rule len)
qed

subsection \<open>Loading sections\<close>

lemma read_ok:
  "\<not> failbit fp \<Longrightarrow> gpos fp + n \<le> length (content fp)
    \<Longrightarrow> read n fp = (slice (content fp) (gpos fp) n, fp\<lparr>gpos := gpos fp + n\<rparr>)"
  by (simp add: read_def slice_def Let_def)

lemma to_uint64_tellg:
  "\<not> failbit fp \<Longrightarrow> gpos fp < 2 ^ 63 \<Longrightarrow> to_uint64 (tellg fp) = gpos fp"
proof -
  assume a: "\<not> failbit fp" "gpos fp < 2 ^ 63"
  have "int (gpos fp) mod 2 ^ 64 = int (gpos fp)"
    using a(2) by simp
  then show ?thesis
    using a(1) by (simp add: to_uint64_def tellg_def)
qed

lemma seekg_to:
  "\<not> failbit fp \<Longrightarrow> p < 2 ^ 63 \<Longrightarrow> seekg (streamoff p) fp = fp\<lparr>gpos := p\<rparr>"
  by (simp add: seekg_def streamoff_small)

lemma seekg_back:
  "\<not> failbit fp \<Longrightarrow> seekg (tellg fp) (fp\<lparr>gpos := p\<rparr>) = fp"
  by (simp add: seekg_def tellg_def)

lemma rel_entries_Suc:
  "rel_entries c bytes off (Suc n) =
     (off, decode_Rel c (slice bytes off (sizeof_Rel c)))
       # rel_entries c bytes (off + sizeof_Rel c) n"
  by (simp add: rel_entries_def map_upt_Suc add.assoc del: upt_Suc)

lemma rela_entries_Suc:
  "rela_entries c bytes off (Suc n) =
     (off, decode_Rela c (slice bytes off (sizeof_Rela c)))
       # rela_entries c bytes (off + sizeof_Rela c) n"
  by (simp add: rela_entries_def map_upt_Suc add.assoc del: upt_Suc)

lemma read_rels_ok:
  "readable fp \<Longrightarrow> gpos fp + k * sizeof_Rel c \<le> length (content fp)
    \<Longrightarrow> read_rels c k acc fp
          = Inr (acc @ rel_entries c (content fp) (gpos fp) k,
                 fp\<lparr>gpos := gpos fp + k * sizeof_Rel c\<rparr>)"
proof (induction k arbitrary: acc fp)
  case 0
  then show ?case by (simp add: rel_entries_def)
next
  case (Suc k)
  let ?n = "sizeof_Rel c"
  let ?fp' = "fp\<lparr>gpos := gpos fp + ?n\<rparr>"
  from Suc.prems have nf: "\<not> failbit fp" and lt: "gpos fp < 2 ^ 63"
    and fit: "gpos fp + ?n \<le> length (content fp)"
    by (simp_all add: readable_def)
  have rd: "read ?n fp = (slice (content fp) (gpos fp) ?n, ?fp')"
    using nf fit by (rule read_ok)
  have "readable ?fp'" "gpos ?fp' + k * ?n \<le> length (content ?fp')"
    using Suc.prems by (simp_all add: readable_def add.assoc)
  from Suc.IH [OF this]
  have "read_rels c k (acc @ [(gpos fp, decode_Rel c (slice (content fp) (gpos fp) ?n))]) ?fp'
      = Inr ((acc @ [(gpos fp, decode_Rel c (slice (content fp) (gpos fp) ?n))])
               @ rel_entries c (content fp) (gpos fp + ?n) k,
             fp\<lparr>gpos := gpos fp + Suc k * ?n\<rparr>)"
    by (simp add: add.assoc)
  then show ?case
    using nf lt by (simp add: rd to_uint64_tellg rel_entries_Suc)
qed

lemma read_relas_ok:
  "readable fp \<Longrightarrow> gpos fp + k * sizeof_Rela c \<le> length (content fp)
    \<Longrightarrow> read_relas c k acc fp
          = Inr (acc @ rela_entries c (content fp) (gpos fp) k,
                 fp\<lparr>gpos := gpos fp + k * sizeof_Rela c\<rparr>)"
proof (induction k arbitrary: acc fp)
  case 0
  then show ?case by (simp add: rela_entries_def)
next
  case (Suc k)
  let ?n = "sizeof_Rela c"
  let ?fp' = "fp\<lparr>gpos := gpos fp + ?n\<rparr>"
  from Suc.prems have nf: "\<not> failbit fp" and lt: "gpos fp < 2 ^ 63"
    and fit: "gpos fp + ?n \<le> length (content fp)"
    by (simp_all add: readable_def)
  have rd: "read ?n fp = (slice (content fp) (gpos fp) ?n, ?fp')"
    using nf fit by (rule read_ok)
  have "readable ?fp'" "gpos ?fp' + k * ?n \<le> length (content ?fp')"
    using Suc.prems by (simp_all add: readable_def add.assoc)
  from Suc.IH [OF this]
  have "read_relas c k (acc @ [(gpos fp, decode_Rela c (slice (content fp) (gpos fp) ?n))]) ?fp'
      = Inr ((acc @ [(gpos fp, decode_Rela c (slice (content fp) (gpos fp) ?n))])
               @ rela_entries c (content fp) (gpos fp + ?n) k,
             fp\<lparr>gpos := gpos fp + Suc k * ?n\<rparr>)"
    by (simp add: add.assoc)
  then show ?case
    using nf lt by (simp add: rd to_uint64_tellg rela_entries_Suc)
qed

lemma addRels_REL:
  assumes "readable fp" "sh_type shdr = SHT_REL" "sh_entsize shdr \<noteq> 0"
    and "sh_offset shdr + (sh_size shdr div sh_entsize shdr) * sizeof_Rel c
           \<le> length (content fp)"
  shows "addRels c shdr (m, fp)
           = Inr (m\<lparr>relocs := relocs m
                      @ rel_entries c (content fp) (sh_offset shdr)
                          (sh_size shdr div sh_entsize shdr)\<rparr>, fp)"
proof -
  let ?fp1 = "fp\<lparr>gpos := sh_offset shdr\<rparr>"
  have nf: "\<not> failbit fp" and small: "sh_offset shdr < 2 ^ 63"
    using assms by (simp_all add: readable_def)
  have sk: "seekg (streamoff (sh_offset shdr)) fp = ?fp1"
    using nf small by (rule seekg_to)
  have "readable ?fp1"
    using assms(1) by (simp add: readable_def)
  then have "read_rels c (sh_size shdr div sh_entsize shdr) (relocs m) ?fp1
      = Inr (relocs m @ rel_entries c (content fp) (sh_offset shdr)
                            (sh_size shdr div sh_entsize shdr),
             ?fp1\<lparr>gpos := sh_offset shdr
                      + (sh_size shdr div sh_entsize shdr) * sizeof_Rel c\<rparr>)"
    using assms(4) read_rels_ok [of ?fp1 "sh_size shdr div sh_entsize shdr" c "relocs m"]
    by simp
  then show ?thesis
    using nf assms(2,3) by (simp add: addRels_def Let_def sk seekg_back)
qed

lemma addRels_RELA:
  assumes "readable fp" "sh_type shdr = SHT_RELA" "sh_entsize shdr \<noteq> 0"
    and "sh_offset shdr + (sh_size shdr div sh_entsize shdr) * sizeof_Rela c
           \<le> length (content fp)"
  shows "addRels c shdr (m, fp)
           = Inr (m\<lparr>relocsAddends := relocsAddends m
                      @ rela_entries c (content fp) (sh_offset shdr)
                          (sh_size shdr div sh_entsize shdr)\<rparr>, fp)"
proof -
  let ?fp1 = "fp\<lparr>gpos := sh_offset shdr\<rparr>"
  have nf: "\<not> failbit fp" and small: "sh_offset shdr < 2 ^ 63"
    using assms by (simp_all add: readable_def)
  have sk: "seekg (streamoff (sh_offset shdr)) fp = ?fp1"
    using nf small by (rule seekg_to)
  have "readable ?fp1"
    using assms(1) by (simp add: readable_def)
  then have "read_relas c (sh_size shdr div sh_entsize shdr) (relocsAddends m) ?fp1
      = Inr (relocsAddends m @ rela_entries c (content fp) (sh_offset shdr)
                                   (sh_size shdr div sh_entsize shdr),
             ?fp1\<lparr>gpos := sh_offset shdr
                      + (sh_size shdr div sh_entsize shdr) * sizeof_Rela c\<rparr>)"
    using assms(4)
      read_relas_ok [of ?fp1 "sh_size shdr div sh_entsize shdr" c "relocsAddends m"]
    by simp
  then show ?thesis
    using nf assms(2,3)
    by (simp add: addRels_def Let_def sk seekg_back SHT_REL_def SHT_RELA_def)
qed

lemma sym_entries_Suc:
  "sym_entries bytes off es (Suc n) =
     decode_Sym (slice bytes off es) # sym_entries bytes (off + es) es n"
  by (simp add: sym_entries_def map_upt_Suc add.assoc del: upt_Suc)

lemma addStringTable_ok:
  assumes "readable fp" "sh_type shdr = SHT_STRTAB"
    and "sh_offset shdr + sh_size shdr \<le> length (content fp)"
  shows "addStringTable c shdr (m, fp)
           = Inr (m\<lparr>stringTable := slice (content fp) (sh_offset shdr) (sh_size shdr)\<rparr>, fp)"
proof -
  let ?fp1 = "fp\<lparr>gpos := sh_offset shdr\<rparr>"
  have nf: "\<not> failbit fp" and small: "sh_offset shdr < 2 ^ 63" "sh_size shdr < 2 ^ 63"
    using assms by (simp_all add: readable_def)
  have sk: "seekg (streamoff (sh_offset shdr)) fp = ?fp1"
    using nf small(1) by (rule seekg_to)
  have "read (sh_size shdr) ?fp1
      = (slice (content fp) (sh_offset shdr) (sh_size shdr),
         ?fp1\<lparr>gpos := sh_offset shdr + sh_size shdr\<rparr>)"
    using nf assms(3) read_ok [of ?fp1 "sh_size shdr"] by simp
  then show ?thesis
    using nf assms(2) small(2) by (simp add: addStringTable_def Let_def sk seekg_back)
qed

lemma read_syms_ok:
  "readable fp \<Longrightarrow> 4 \<le> es \<Longrightarrow> es \<le> sizeof_Sym c
    \<Longrightarrow> gpos fp + k * es \<le> length (content fp)
    \<Longrightarrow> read_syms c es k acc fp
          = Inr (acc @ sym_entries (content fp) (gpos fp) es k, fp\<lparr>gpos := gpos fp + k * es\<rparr>)"
proof (induction k arbitrary: acc fp)
  case 0
  then show ?case by (simp add: sym_entries_def)
next
  case (Suc k)
  let ?fp' = "fp\<lparr>gpos := gpos fp + es\<rparr>"
  from Suc.prems have nf: "\<not> failbit fp" and fit: "gpos fp + es \<le> length (content fp)"
    by (simp_all add: readable_def)
  have "es \<le> 24" using Suc.prems(3) by (cases c) simp_all
  then have so: "streamoff es = int es"
    by (simp add: streamoff_small)
  have rd: "read es fp = (slice (content fp) (gpos fp) es, ?fp')"
    using nf fit by (rule read_ok)
  have len: "length (slice (content fp) (gpos fp) es) \<le> sizeof_Sym c"
    using Suc.prems(3) by (simp add: slice_def)
  have "readable ?fp'" "gpos ?fp' + k * es \<le> length (content ?fp')"
    using Suc.prems by (simp_all add: readable_def add.assoc)
  from Suc.IH [OF this(1) Suc.prems(2,3) this(2)]
  have "read_syms c es k (acc @ [decode_Sym (slice (content fp) (gpos fp) es)]) ?fp'
      = Inr ((acc @ [decode_Sym (slice (content fp) (gpos fp) es)])
               @ sym_entries (content fp) (gpos fp + es) es k,
             fp\<lparr>gpos := gpos fp + Suc k * es\<rparr>)"
    by (simp add: add.assoc)
  then show ?case
    using nf Suc.prems(2,3) len by (simp add: so rd sym_entries_Suc)
qed

lemma to_int_small: "n < 2 ^ 31 \<Longrightarrow> to_int n = int n"
  by (simp add: to_int_def Let_def)

lemma addSymbolTable_ok:
  assumes "readable fp" "sh_type shdr = SHT_DYNSYM"
    and "4 \<le> sh_entsize shdr" "sh_entsize shdr \<le> sizeof_Sym c"
    and "sh_size shdr div sh_entsize shdr < 2 ^ 31"
    and "sh_offset shdr + (sh_size shdr div sh_entsize shdr) * sh_entsize shdr
           \<le> length (content fp)"
  shows "addSymbolTable c shdr (m, fp)
           = Inr (m\<lparr>symbolTable := symbolTable m
                      @ sym_entries (content fp) (sh_offset shdr) (sh_entsize shdr)
                          (sh_size shdr div sh_entsize shdr)\<rparr>, fp)"
proof -
  let ?fp1 = "fp\<lparr>gpos := sh_offset shdr\<rparr>"
  let ?n = "sh_size shdr div sh_entsize shdr"
  have nf: "\<not> failbit fp" and small: "sh_offset shdr < 2 ^ 63"
    using assms by (simp_all add: readable_def)
  have sk: "seekg (streamoff (sh_offset shdr)) fp = ?fp1"
    using nf small by (rule seekg_to)
  have n: "nat (to_int ?n) = ?n"
    using assms(5) by (simp add: to_int_small)
  have "readable ?fp1"
    using assms(1) by (simp add: readable_def)
  then have "read_syms c (sh_entsize shdr) ?n (symbolTable m) ?fp1
      = Inr (symbolTable m @ sym_entries (content fp) (sh_offset shdr) (sh_entsize shdr) ?n,
             ?fp1\<lparr>gpos := sh_offset shdr + ?n * sh_entsize shdr\<rparr>)"
    using assms(3,4,6) read_syms_ok [of ?fp1 "sh_entsize shdr" c ?n "symbolTable m"]
    by simp
  then show ?thesis
    using nf assms(2,3) by (simp add: addSymbolTable_def Let_def sk seekg_back n)
qed

subsection \<open>Names and the dump\<close>

lemma sym_index_code:
  "(if sizeof_Rel c = sizeof_Rel ELFCLASS32 then ELF32_R_SYM (rInfo mod 2 ^ 64)
    else ELF64_R_SYM (rInfo mod 2 ^ 64)) = sym_index c rInfo"
  by (cases c) (simp_all add: sym_index_def sizeof_Rel_def ELF32_R_SYM_def ELF64_R_SYM_def)

lemma relocSymName_eq:
  "relocSymName c m rInfo =
     (if sym_index c rInfo < length (symbolTable m) then
        if st_name (symbolTable m ! sym_index c rInfo) < length (stringTable m)
        then cstr (stringTable m) (st_name (symbolTable m ! sym_index c rInfo))
        else Inr ''N/A''
      else Inr ''N/A'')"
  unfolding relocSymName_def sym_index_code by (simp add: at_vec_def)

lemma cstr_in_bounds: "k < length tab \<Longrightarrow> cstr tab k \<noteq> Inl OutOfBounds"
  by (simp add: cstr_def)

lemma cstr_terminated:
  "k < length tab \<Longrightarrow> NUL \<in> set (drop k tab) \<Longrightarrow> cstr tab k = Inr (name_at tab k)"
  by (simp add: cstr_def name_at_def)

lemma relocSymName_no_oob: "relocSymName c m rInfo \<noteq> Inl OutOfBounds"
  by (simp add: relocSymName_eq cstr_in_bounds)





subsection \<open>The numerals of the dump\<close>











subsection \<open>The headers and lines of the dump\<close>












subsection \<open>The length of the output file\<close>

lemma length_put:
  assumes "p + length bs \<le> length (obuf out)"
  shows "length (obuf (write_out bs (seekp p out))) = length (obuf out)"
proof -
  have "p mod 2 ^ 64 + length bs \<le> length (obuf out)"
    using assms mod_less_eq_dividend [of p "2 ^ 64"] by linarith
  then show ?thesis
    by (simp add: write_out_def seekp_def length_overwrite)
qed

lemma swap_rels_length:
  assumes "rel_in_file c w a b"
  shows "length (obuf (outFile (swap_rels c a b w))) = length (obuf (outFile w))"
proof -
  let ?p = "fst (relocs (elf w) ! a)" and ?q = "fst (relocs (elf w) ! b)"
  have l1: "length (obuf (write_out (encode_Rel c x) (seekp ?p (outFile w))))
              = length (obuf (outFile w))" for x
    using assms by (intro length_put) (simp add: rel_in_file_def)
  have "length (obuf (write_out (encode_Rel c y)
                  (seekp ?q (write_out (encode_Rel c x) (seekp ?p (outFile w))))))
          = length (obuf (outFile w))" for x y
    using assms l1 [of x] by (subst length_put) (simp_all add: rel_in_file_def)
  then show ?thesis
    by (simp add: swap_rels_outFile)
qed

lemma swap_relas_length:
  assumes "rela_in_file c w a b"
  shows "length (obuf (outFile (swap_relas c a b w))) = length (obuf (outFile w))"
proof -
  let ?p = "fst (relocsAddends (elf w) ! a)" and ?q = "fst (relocsAddends (elf w) ! b)"
  have l1: "length (obuf (write_out (encode_Rela c x) (seekp ?p (outFile w))))
              = length (obuf (outFile w))" for x
    using assms by (intro length_put) (simp add: rela_in_file_def)
  have "length (obuf (write_out (encode_Rela c y)
                  (seekp ?q (write_out (encode_Rela c x) (seekp ?p (outFile w))))))
          = length (obuf (outFile w))" for x y
    using assms l1 [of x] by (subst length_put) (simp_all add: rela_in_file_def)
  then show ?thesis
    by (simp add: swap_relas_outFile)
qed

subsection \<open>What a round does to standard output and to the random sequence\<close>

lemma swap_round_effects:
  assumes "swap_round c rnd w = Some w'"
  shows "(\<exists>s. cout w' = cout w @ s) \<and> rand_calls w \<le> rand_calls w'"
  using assms
  by (auto simp: swap_round_def rand_def Let_def swap_rels_def swap_relas_def
           split: if_splits)

lemma swap_rounds_effects:
  "(\<exists>s. cout (swap_rounds c rnd k w) = cout w @ s)
   \<and> rand_calls w \<le> rand_calls (swap_rounds c rnd k w)"
proof (induction k arbitrary: w)
  case 0
  then show ?case by simp
next
  case (Suc k)
  show ?case
  proof (cases "swap_round c rnd w")
    case None
    then show ?thesis by simp
  next
    case (Some w1)
    from swap_round_effects [OF Some] obtain s1
      where s1: "cout w1 = cout w @ s1" and r1: "rand_calls w \<le> rand_calls w1"
      by blast
    from Suc.IH [of w1] obtain s2
      where s2: "cout (swap_rounds c rnd k w1) = cout w1 @ s2"
        and r2: "rand_calls w1 \<le> rand_calls (swap_rounds c rnd k w1)"
      by blast
    from s1 s2 r1 r2 Some show ?thesis by simp
  qed
qed

subsection \<open>What loading records\<close>

lemma rel_entries_nth:
  "i < n \<Longrightarrow> rel_entries c bytes off n ! i
     = (off + i * sizeof_Rel c, decode_Rel c (slice bytes (off + i * sizeof_Rel c) (sizeof_Rel c)))"
  by (simp add: rel_entries_def)

lemma rela_entries_nth:
  "i < n \<Longrightarrow> rela_entries c bytes off n ! i
     = (off + i * sizeof_Rela c,
        decode_Rela c (slice bytes (off + i * sizeof_Rela c) (sizeof_Rela c)))"
  by (simp add: rela_entries_def)

lemma length_entries [simp]:
  "length (rel_entries c bytes off n) = n" "length (rela_entries c bytes off n) = n"
  "length (sym_entries bytes off es n) = n"
  by (simp_all add: rel_entries_def rela_entries_def sym_entries_def)

lemma field_bound: "field bs off w < 256 ^ w"
proof -
  have "le_val (take w (drop off bs)) < 256 ^ length (take w (drop off bs))"
    by (rule le_val_bound)
  also have "\<dots> \<le> (256::nat) ^ w"
    by (intro power_increasing) simp_all
  finally show ?thesis by (simp add: field_def)
qed

lemma decode_Rel_fits: "Rel_fits c (decode_Rel c bs)"
  by (simp add: Rel_fits_def decode_Rel_def field_bound)

lemma decode_Rela_fits: "Rela_fits c (decode_Rela c bs)"
  by (simp add: Rela_fits_def decode_Rela_def field_bound)

lemma entries_apart:
  fixes off :: nat
  assumes "i \<noteq> j"
  shows "disjoint_at (off + i * sz) (off + j * sz) sz"
proof (cases "i < j")
  case True
  then have "Suc i * sz \<le> j * sz"
    by (intro mult_le_mono1) simp
  then show ?thesis by (simp add: disjoint_at_def)
next
  case False
  with assms have "Suc j * sz \<le> i * sz"
    by (intro mult_le_mono1) simp
  then show ?thesis by (simp add: disjoint_at_def)
qed

lemma rel_entries_disjoint:
  "i < n \<Longrightarrow> j < n \<Longrightarrow> i \<noteq> j
    \<Longrightarrow> disjoint_at (fst (rel_entries c bytes off n ! i)) (fst (rel_entries c bytes off n ! j))
          (sizeof_Rel c)"
  by (simp add: rel_entries_nth entries_apart)

lemma rela_entries_disjoint:
  "i < n \<Longrightarrow> j < n \<Longrightarrow> i \<noteq> j
    \<Longrightarrow> disjoint_at (fst (rela_entries c bytes off n ! i))
          (fst (rela_entries c bytes off n ! j)) (sizeof_Rela c)"
  by (simp add: rela_entries_nth entries_apart)

subsection \<open>The example image, evaluated\<close>

lemma ex_len: "length ex_image = 446"
  by code_simp

lemma ex_ident: "slice ex_image 0 16 = ELFMAG @ CHR 0x01 # zeros 11"
  by code_simp

lemma ex_ehdr:
  "decode_Ehdr ELFCLASS32 (slice ex_image 0 52)
     = \<lparr>e_shoff = 52, e_shentsize = 40, e_shnum = 7, e_shstrndx = 6\<rparr>"
  by code_simp

lemma ex_sh0:
  "decode_Shdr ELFCLASS32 (slice ex_image 52 40)
     = \<lparr>sh_name = 1, sh_type = 9, sh_offset = 388, sh_size = 8, sh_entsize = 8\<rparr>"
  by code_simp

lemma ex_sh1:
  "decode_Shdr ELFCLASS32 (slice ex_image 92 40)
     = \<lparr>sh_name = 10, sh_type = 4, sh_offset = 396, sh_size = 12, sh_entsize = 12\<rparr>"
  by code_simp

lemma ex_sh2:
  "decode_Shdr ELFCLASS32 (slice ex_image 132 40)
     = \<lparr>sh_name = 20, sh_type = 4, sh_offset = 408, sh_size = 12, sh_entsize = 12\<rparr>"
  by code_simp

lemma ex_sh3:
  "decode_Shdr ELFCLASS32 (slice ex_image 172 40)
     = \<lparr>sh_name = 30, sh_type = 11, sh_offset = 420, sh_size = 16, sh_entsize = 16\<rparr>"
  by code_simp

lemma ex_sh4:
  "decode_Shdr ELFCLASS32 (slice ex_image 212 40)
     = \<lparr>sh_name = 38, sh_type = 3, sh_offset = 436, sh_size = 5, sh_entsize = 0\<rparr>"
  by code_simp

lemma ex_sh5:
  "decode_Shdr ELFCLASS32 (slice ex_image 252 40)
     = \<lparr>sh_name = 38, sh_type = 3, sh_offset = 441, sh_size = 5, sh_entsize = 0\<rparr>"
  by code_simp

lemma ex_sh6:
  "decode_Shdr ELFCLASS32 (slice ex_image 292 40)
     = \<lparr>sh_name = 46, sh_type = 3, sh_offset = 332, sh_size = 56, sh_entsize = 0\<rparr>"
  by code_simp

lemma ex_shstrtab: "slice ex_image 332 56 = ex_names"
  by code_simp

lemma ex_rel0: "rel_entries ELFCLASS32 ex_image 388 1 = [(388, ex_R)]"
  by code_simp

lemma ex_rela0: "rela_entries ELFCLASS32 ex_image 396 1 = [(396, ex_X)]"
  by code_simp

lemma ex_rela1: "rela_entries ELFCLASS32 ex_image 408 1 = [(408, ex_Y)]"
  by code_simp

lemma ex_syms: "sym_entries ex_image 420 16 1 = [\<lparr>st_name = 1\<rparr>]"
  by code_simp

lemma ex_str0: "slice ex_image 436 5 = ex_foo"
  by code_simp

lemma ex_str1: "slice ex_image 441 5 = ex_bar"
  by code_simp

lemma ex_names_len: "length ex_names = 56"
  by code_simp

lemma ex_cstr:
  "cstr ex_names 1 = Inr ''.rel.dyn''"
  "cstr ex_names 10 = Inr ''.rela.dyn''"
  "cstr ex_names 20 = Inr ''.rela.plt''"
  "cstr ex_names 30 = Inr ''.dynsym''"
  "cstr ex_names 38 = Inr ''.dynstr''"
  "cstr ex_names 46 = Inr ''.shstrtab''"
  by code_simp+

lemma ex_fp_simps [simp]:
  "content (ex_fp p) = ex_image" "gpos (ex_fp p) = p" "\<not> failbit (ex_fp p)"
  "(ex_fp p)\<lparr>gpos := q\<rparr> = ex_fp q" "readable (ex_fp p)"
  by (simp_all add: ex_fp_def readable_def ex_len)

lemma ex_read [simp]:
  "p + n \<le> 446 \<Longrightarrow> read n (ex_fp p) = (slice ex_image p n, ex_fp (p + n))"
  using read_ok [of "ex_fp p" n] by (simp add: ex_len)

lemma ex_isSection [simp]:
  "isSection (m\<lparr>sectionStringTable := ex_names\<rparr>) (Suc 0) nm = Inr (nm = ''.rel.dyn'')"
  "isSection (m\<lparr>sectionStringTable := ex_names\<rparr>) 10 nm = Inr (nm = ''.rela.dyn'')"
  "isSection (m\<lparr>sectionStringTable := ex_names\<rparr>) 20 nm = Inr (nm = ''.rela.plt'')"
  "isSection (m\<lparr>sectionStringTable := ex_names\<rparr>) 30 nm = Inr (nm = ''.dynsym'')"
  "isSection (m\<lparr>sectionStringTable := ex_names\<rparr>) 38 nm = Inr (nm = ''.dynstr'')"
  "isSection (m\<lparr>sectionStringTable := ex_names\<rparr>) 46 nm = Inr (nm = ''.shstrtab'')"
  using ex_cstr by (simp_all add: isSection_def ex_names_len)

lemma ex_strtab:
  "addSectionStringTable ELFCLASS32
     \<lparr>e_shoff = 52, e_shentsize = 40, e_shnum = 7, e_shstrndx = 6\<rparr> (m, ex_fp 52)
   = Inr (m\<lparr>sectionStringTable := ex_names\<rparr>, ex_fp 52)"
  by (simp add: addSectionStringTable_def Let_def tellg_def seekg_def streamoff_def
        ex_sh6 ex_shstrtab)

lemma ex_step0:
  "load_section ELFCLASS32 (m\<lparr>sectionStringTable := ex_names\<rparr>, ex_fp 52)
   = Inr (m\<lparr>sectionStringTable := ex_names, relocs := relocs m @ [(388, ex_R)]\<rparr>,
          ex_fp 92)"
  using ex_rel0
  by (simp add: load_section_def Let_def ex_sh0 andalso_def orelse_def
        SHT_REL_def SHT_RELA_def addRels_REL sizeof_Rel_def ex_len)

lemma ex_step1:
  "load_section ELFCLASS32 (m\<lparr>sectionStringTable := ex_names\<rparr>, ex_fp 92)
   = Inr (m\<lparr>sectionStringTable := ex_names,
            relocsAddends := relocsAddends m @ [(396, ex_X)]\<rparr>, ex_fp 132)"
  using ex_rela0
  by (simp add: load_section_def Let_def ex_sh1 andalso_def orelse_def
        SHT_REL_def SHT_RELA_def addRels_RELA sizeof_Rela_def ex_len)

lemma ex_step2:
  "load_section ELFCLASS32 (m\<lparr>sectionStringTable := ex_names\<rparr>, ex_fp 132)
   = Inr (m\<lparr>sectionStringTable := ex_names,
            relocsAddends := relocsAddends m @ [(408, ex_Y)]\<rparr>, ex_fp 172)"
  using ex_rela1
  by (simp add: load_section_def Let_def ex_sh2 andalso_def orelse_def
        SHT_REL_def SHT_RELA_def addRels_RELA sizeof_Rela_def ex_len)

lemma ex_step3:
  "load_section ELFCLASS32 (m\<lparr>sectionStringTable := ex_names\<rparr>, ex_fp 172)
   = Inr (m\<lparr>sectionStringTable := ex_names,
            symbolTable := symbolTable m @ [\<lparr>st_name = 1\<rparr>]\<rparr>, ex_fp 212)"
  using ex_syms
  by (simp add: load_section_def Let_def ex_sh3 andalso_def orelse_def
        SHT_REL_def SHT_RELA_def SHT_STRTAB_def SHT_DYNSYM_def addSymbolTable_ok ex_len)

lemma ex_step4:
  "load_section ELFCLASS32 (m\<lparr>sectionStringTable := ex_names\<rparr>, ex_fp 212)
   = Inr (m\<lparr>sectionStringTable := ex_names, stringTable := ex_foo\<rparr>, ex_fp 252)"
  by (simp add: load_section_def Let_def ex_sh4 andalso_def orelse_def
        SHT_REL_def SHT_RELA_def SHT_STRTAB_def addStringTable_ok ex_len ex_str0)

lemma ex_step5:
  "load_section ELFCLASS32 (m\<lparr>sectionStringTable := ex_names\<rparr>, ex_fp 252)
   = Inr (m\<lparr>sectionStringTable := ex_names, stringTable := ex_bar\<rparr>, ex_fp 292)"
  by (simp add: load_section_def Let_def ex_sh5 andalso_def orelse_def
        SHT_REL_def SHT_RELA_def SHT_STRTAB_def addStringTable_ok ex_len ex_str1)

lemma ex_step6:
  "load_section ELFCLASS32 (m\<lparr>sectionStringTable := ex_names\<rparr>, ex_fp 292)
   = Inr (m\<lparr>sectionStringTable := ex_names\<rparr>, ex_fp 332)"
  by (simp add: load_section_def Let_def ex_sh6 andalso_def orelse_def
        SHT_REL_def SHT_RELA_def SHT_STRTAB_def SHT_DYNSYM_def)

lemma load_sections_step:
  "0 < n \<Longrightarrow> load_sections c n st
     = (case load_section c st of Inl e \<Rightarrow> Inl e | Inr st' \<Rightarrow> load_sections c (n - 1) st')"
  by (cases n) (auto split: sum.splits)

lemma ex_sections:
  "load_sections ELFCLASS32 7 (empty_ElfT\<lparr>sectionStringTable := ex_names\<rparr>, ex_fp 52)
   = Inr (ex_model, ex_fp 332)"
proof -
  let ?m0 = "empty_ElfT\<lparr>sectionStringTable := ex_names\<rparr>"
  let ?m1 = "?m0\<lparr>relocs := [(388, ex_R)]\<rparr>"
  let ?m2 = "?m1\<lparr>relocsAddends := [(396, ex_X)]\<rparr>"
  let ?m3 = "?m1\<lparr>relocsAddends := [(396, ex_X), (408, ex_Y)]\<rparr>"
  let ?m4 = "?m3\<lparr>symbolTable := [\<lparr>st_name = 1\<rparr>]\<rparr>"
  let ?m5 = "?m4\<lparr>stringTable := ex_foo\<rparr>"
  let ?m6 = "?m4\<lparr>stringTable := ex_bar\<rparr>"
  have s0: "load_section ELFCLASS32 (?m0, ex_fp 52) = Inr (?m1, ex_fp 92)"
    using ex_step0 [of empty_ElfT] by (simp add: empty_ElfT_def)
  have s1: "load_section ELFCLASS32 (?m1, ex_fp 92) = Inr (?m2, ex_fp 132)"
    using ex_step1 [of ?m1] by (simp add: empty_ElfT_def)
  have s2: "load_section ELFCLASS32 (?m2, ex_fp 132) = Inr (?m3, ex_fp 172)"
    using ex_step2 [of ?m2] by (simp add: empty_ElfT_def)
  have s3: "load_section ELFCLASS32 (?m3, ex_fp 172) = Inr (?m4, ex_fp 212)"
    using ex_step3 [of ?m3] by (simp add: empty_ElfT_def)
  have s4: "load_section ELFCLASS32 (?m4, ex_fp 212) = Inr (?m5, ex_fp 252)"
    using ex_step4 [of ?m4] by (simp add: empty_ElfT_def)
  have s5: "load_section ELFCLASS32 (?m5, ex_fp 252) = Inr (?m6, ex_fp 292)"
    using ex_step5 [of ?m5] by (simp add: empty_ElfT_def)
  have s6: "load_section ELFCLASS32 (?m6, ex_fp 292) = Inr (?m6, ex_fp 332)"
    using ex_step6 [of ?m6] by (simp add: empty_ElfT_def)
  have "load_sections ELFCLASS32 7 (?m0, ex_fp 52) = load_sections ELFCLASS32 6 (?m1, ex_fp 92)"
    using s0 by (simp add: load_sections_step)
  also have "\<dots> = load_sections ELFCLASS32 5 (?m2, ex_fp 132)"
    using s1 by (simp add: load_sections_step)
  also have "\<dots> = load_sections ELFCLASS32 4 (?m3, ex_fp 172)"
    using s2 by (simp add: load_sections_step)
  also have "\<dots> = load_sections ELFCLASS32 3 (?m4, ex_fp 212)"
    using s3 by (simp add: load_sections_step)
  also have "\<dots> = load_sections ELFCLASS32 2 (?m5, ex_fp 252)"
    using s4 by (simp add: load_sections_step)
  also have "\<dots> = load_sections ELFCLASS32 1 (?m6, ex_fp 292)"
    using s5 by (simp add: load_sections_step)
  also have "\<dots> = Inr (?m6, ex_fp 332)"
    using s6 by simp
  also have "?m6 = ex_model"
    by (simp add: ex_model_def empty_ElfT_def)
  finally show ?thesis .
qed

lemma ex_parse: "parse ELFCLASS32 (empty_ElfT, ex_fp 0) = Inr (ex_model, ex_fp 332)"
  by (simp add: parse_def Let_def ex_ehdr ex_strtab seekg_def streamoff_def ex_sections)

lemma ex_parseElf: "parseElf (open_in ex_image) = Inr (ELFCLASS32, ex_model)"
proof -
  have "open_in ex_image = ex_fp 0"
    by (simp add: open_in_def ex_fp_def)
  then show ?thesis
    by (simp add: parseElf_def Let_def ex_ident ELFMAG_def zeros_def seekg_def ex_parse)
qed





lemma ex_digits:
  "show_dec 0 = ''0''" "show_dec 1 = ''1''" "show_dec 2 = ''2''"
  "show_hex 388 = ''184''" "show_hex 396 = ''18c''" "show_hex 408 = ''198''"
  "show_hex 16 = ''10''" "show_hex 32 = ''20''" "show_hex 48 = ''30''"
  "show_hex 1 = ''1''" "show_hex 0 = ''0''" "show_hex 4 = ''4''" "show_hex 8 = ''8''"
  "show_hex 263 = ''107''"
  by code_simp+



lemma ex_round1: "swap_round ELFCLASS32 ex_rnd ex_rel_world = Some ex_rel_world1"
  using ex_digits
  by (simp add: swap_round_def swap_rels_def rand_def ex_rel_world_def ex_rel_world1_def
        ex_rnd_def Let_def seekp_def write_out_def streamoff_def overwrite_def ex_R0_def
        ex_R1_def sizeof_Rel_def)



lemma ex_overlap_entries:
  "rela_entries ELFCLASS32 ex_overlap_bytes 0 (Suc 0) = [(0, ex_OA)]"
  "rela_entries ELFCLASS32 ex_overlap_bytes 4 (Suc 0) = [(4, ex_OB)]"
  by code_simp+

lemma ex_overlap_load:
  "addRels ELFCLASS32 (ex_overlap_shdr off) (m, open_in ex_overlap_bytes)
     = Inr (m\<lparr>relocsAddends := relocsAddends m
                 @ rela_entries ELFCLASS32 ex_overlap_bytes off 1\<rparr>,
            open_in ex_overlap_bytes)"
  if "off \<le> 4" for off m
proof -
  have "addRels ELFCLASS32 (ex_overlap_shdr off) (m, open_in ex_overlap_bytes)
     = Inr (m\<lparr>relocsAddends := relocsAddends m
                 @ rela_entries ELFCLASS32 (content (open_in ex_overlap_bytes))
                     (sh_offset (ex_overlap_shdr off))
                     (sh_size (ex_overlap_shdr off) div sh_entsize (ex_overlap_shdr off))\<rparr>,
            open_in ex_overlap_bytes)"
    using that
    by (intro addRels_RELA)
       (simp_all add: readable_def open_in_def ex_overlap_shdr_def ex_overlap_bytes_def
          sizeof_Rela_def)
  then show ?thesis
    by (simp add: open_in_def ex_overlap_shdr_def)
qed

lemma ex_overlap_round:
  "swap_round ELFCLASS32 ex_rnd ex_overlap_world = Some ex_overlap_world1"
  using ex_digits
  by (simp add: swap_round_def swap_relas_def rand_def ex_overlap_world_def
        ex_overlap_world1_def ex_overlap_bytes_def empty_ElfT_def
        ex_rnd_def Let_def seekp_def write_out_def streamoff_def overwrite_def ex_OA_def
        ex_OB_def sizeof_Rela_def encode_Rela_def)

lemma ex_overlap_readback:
  "Rela_at ELFCLASS32 (outFile ex_overlap_world1) 0
     = \<lparr>r_offset = 1, r_info = 0x10, r_addend = 0x20\<rparr>"
  "Rela_at ELFCLASS32 (outFile ex_overlap_world1) 4
     = \<lparr>r_offset = 0x10, r_info = 0x20, r_addend = 0x20\<rparr>"
  by code_simp+

lemma ex_main_plain:
  "main rnd False 0 None ''in.elf'' ex_fs = Inr ([], ex_fs)"
  by (simp add: main_def ex_fs_def ex_parseElf)

section \<open>The claims\<close>

subsection \<open>Shuffling\<close>

lemma swap_round_empty:
  "relocs (elf w) = [] \<Longrightarrow> relocsAddends (elf w) = [] \<Longrightarrow> swap_round c rnd w = None"
  by (simp add: swap_round_def)

lemma swap_round_rel:
  "relocs (elf w) \<noteq> [] \<Longrightarrow> relocsAddends (elf w) = []
    \<Longrightarrow> swap_round c rnd w
          = Some (swap_rels c (rnd (rand_calls w) mod length (relocs (elf w)))
                    (rnd (Suc (rand_calls w)) mod length (relocs (elf w)))
                    (w\<lparr>rand_calls := Suc (Suc (rand_calls w))\<rparr>))"
  by (simp add: swap_round_def rand_def Let_def)

lemma swap_round_rela:
  "relocs (elf w) = [] \<Longrightarrow> relocsAddends (elf w) \<noteq> []
    \<Longrightarrow> swap_round c rnd w
          = Some (swap_relas c (rnd (rand_calls w) mod length (relocsAddends (elf w)))
                    (rnd (Suc (rand_calls w)) mod length (relocsAddends (elf w)))
                    (w\<lparr>rand_calls := Suc (Suc (rand_calls w))\<rparr>))"
  by (simp add: swap_round_def rand_def Let_def)

lemma swap_round_both:
  "relocs (elf w) \<noteq> [] \<Longrightarrow> relocsAddends (elf w) \<noteq> []
    \<Longrightarrow> swap_round c rnd w
          = Some (if rnd (rand_calls w) mod 2 \<noteq> 0
                  then swap_rels c (rnd (Suc (rand_calls w)) mod length (relocs (elf w)))
                         (rnd (Suc (Suc (rand_calls w))) mod length (relocs (elf w)))
                         (w\<lparr>rand_calls := Suc (Suc (Suc (rand_calls w)))\<rparr>)
                  else swap_relas c
                         (rnd (Suc (rand_calls w)) mod length (relocsAddends (elf w)))
                         (rnd (Suc (Suc (rand_calls w))) mod length (relocsAddends (elf w)))
                         (w\<lparr>rand_calls := Suc (Suc (Suc (rand_calls w)))\<rparr>))"
  by (simp add: swap_round_def rand_def Let_def)

lemma swap_round_selects:
  assumes "swap_round c rnd w = Some w'"
  shows "\<exists>a b w0. elf w0 = elf w \<and> outFile w0 = outFile w
           \<and> (a < length (relocs (elf w)) \<and> b < length (relocs (elf w))
                 \<and> w' = swap_rels c a b w0
               \<or> a < length (relocsAddends (elf w)) \<and> b < length (relocsAddends (elf w))
                 \<and> w' = swap_relas c a b w0)"
proof -
  let ?k = "rand_calls w"
  let ?n = "length (relocs (elf w))" and ?na = "length (relocsAddends (elf w))"
  have rel: ?thesis
    if "relocs (elf w) \<noteq> []" "w' = swap_rels c (x mod ?n) (y mod ?n) (w\<lparr>rand_calls := k\<rparr>)"
    for x y k
  proof -
    have "x mod ?n < ?n" "y mod ?n < ?n"
      using that(1) by simp_all
    moreover have "elf (w\<lparr>rand_calls := k\<rparr>) = elf w" "outFile (w\<lparr>rand_calls := k\<rparr>) = outFile w"
      by simp_all
    ultimately show ?thesis
      using that(2) by blast
  qed
  have rela: ?thesis
    if "relocsAddends (elf w) \<noteq> []"
      "w' = swap_relas c (x mod ?na) (y mod ?na) (w\<lparr>rand_calls := k\<rparr>)"
    for x y k
  proof -
    have "x mod ?na < ?na" "y mod ?na < ?na"
      using that(1) by simp_all
    moreover have "elf (w\<lparr>rand_calls := k\<rparr>) = elf w" "outFile (w\<lparr>rand_calls := k\<rparr>) = outFile w"
      by simp_all
    ultimately show ?thesis
      using that(2) by blast
  qed
  show ?thesis
  proof (cases "relocs (elf w) = []")
    case True
    then have ne: "relocsAddends (elf w) \<noteq> []"
      using assms by (auto simp: swap_round_empty)
    from assms swap_round_rela [OF True ne, of c rnd]
    have "w' = swap_relas c (rnd ?k mod ?na) (rnd (Suc ?k) mod ?na)
                 (w\<lparr>rand_calls := Suc (Suc ?k)\<rparr>)"
      by simp
    then show ?thesis by (rule rela [OF ne])
  next
    case False
    show ?thesis
    proof (cases "relocsAddends (elf w) = []")
      case True
      from assms swap_round_rel [OF False True, of c rnd]
      have "w' = swap_rels c (rnd ?k mod ?n) (rnd (Suc ?k) mod ?n)
                   (w\<lparr>rand_calls := Suc (Suc ?k)\<rparr>)"
        by simp
      then show ?thesis by (rule rel [OF False])
    next
      case ne: False
      show ?thesis
      proof (cases "rnd ?k mod 2 \<noteq> 0")
        case True
        with assms swap_round_both [OF False ne, of c rnd]
        have "w' = swap_rels c (rnd (Suc ?k) mod ?n) (rnd (Suc (Suc ?k)) mod ?n)
                     (w\<lparr>rand_calls := Suc (Suc (Suc ?k))\<rparr>)"
          by simp
        then show ?thesis by (rule rel [OF False])
      next
        case False
        with assms swap_round_both [OF \<open>relocs (elf w) \<noteq> []\<close> ne, of c rnd]
        have "w' = swap_relas c (rnd (Suc ?k) mod ?na) (rnd (Suc (Suc ?k)) mod ?na)
                     (w\<lparr>rand_calls := Suc (Suc (Suc ?k))\<rparr>)"
          by simp
        then show ?thesis by (rule rela [OF ne])
      qed
    qed
  qed
qed

lemma swap_round_elf: "swap_round c rnd w = Some w' \<Longrightarrow> elf w' = elf w"
  by (drule swap_round_selects) auto

lemma swap_rounds_elf: "elf (swap_rounds c rnd k w) = elf w"
  by (induction k arbitrary: w) (auto simp: swap_round_elf split: option.splits)

lemma swap_round_outFile:
  assumes "swap_round c rnd w = Some w'"
  shows "\<exists>i j. i < length (relocs (elf w)) \<and> j < length (relocs (elf w))
                 \<and> outFile w' = outFile (swap_rels c i j w)
               \<or> i < length (relocsAddends (elf w)) \<and> j < length (relocsAddends (elf w))
                 \<and> outFile w' = outFile (swap_relas c i j w)"
proof -
  from swap_round_selects [OF assms] obtain a b w0
    where same: "elf w0 = elf w" "outFile w0 = outFile w"
      and sel: "a < length (relocs (elf w)) \<and> b < length (relocs (elf w))
                  \<and> w' = swap_rels c a b w0
                \<or> a < length (relocsAddends (elf w)) \<and> b < length (relocsAddends (elf w))
                  \<and> w' = swap_relas c a b w0"
    by blast
  have "outFile (swap_rels c a b w0) = outFile (swap_rels c a b w)"
    "outFile (swap_relas c a b w0) = outFile (swap_relas c a b w)"
    by (simp_all add: swap_rels_outFile swap_relas_outFile same)
  with sel show ?thesis
    by metis
qed

text \<open>
  C1, as stated, fails: the entries of every section of one shape are recorded in one
  sequence, and nothing keeps the byte ranges of two of them apart. Two sections of
  one 32-bit relocation with addend each, at the file offsets 0 and 4, are loaded as
  two entries whose ranges of 12 bytes overlap. The round on the entries 0 and 1
  writes entry 1 over the second and third word of what it wrote for entry 0: at the
  recorded offset of entry 0 the file then holds \<open>r_info = 0x10\<close> where the entry
  had 1, and \<open>r_addend = 0x20\<close> where the addend of entry 1 was 3.
\<close>

theorem overlapping_entries_counterexample:
  "addRels ELFCLASS32 (ex_overlap_shdr 0) (empty_ElfT, open_in ex_overlap_bytes)
     = Inr (empty_ElfT\<lparr>relocsAddends := [(0, ex_OA)]\<rparr>, open_in ex_overlap_bytes)
   \<and> addRels ELFCLASS32 (ex_overlap_shdr 4)
        (empty_ElfT\<lparr>relocsAddends := [(0, ex_OA)]\<rparr>, open_in ex_overlap_bytes)
     = Inr (elf ex_overlap_world, open_in ex_overlap_bytes)
   \<and> obuf (outFile ex_overlap_world) = ex_overlap_bytes
   \<and> swap_round ELFCLASS32 ex_rnd ex_overlap_world
     = Some (swap_relas ELFCLASS32 0 1 (ex_overlap_world\<lparr>rand_calls := 2\<rparr>))
   \<and> swap_relas ELFCLASS32 0 1 (ex_overlap_world\<lparr>rand_calls := 2\<rparr>) = ex_overlap_world1
   \<and> relocsAddends (elf ex_overlap_world) = [(0, ex_OA), (4, ex_OB)]
   \<and> r_info ex_OA = 1
   \<and> r_info (Rela_at ELFCLASS32 (outFile ex_overlap_world1) 0) = 0x10
   \<and> r_addend ex_OB = 3
   \<and> r_addend (Rela_at ELFCLASS32 (outFile ex_overlap_world1) 0) = 0x20
   \<and> r_info (Rela_at ELFCLASS32 (outFile ex_overlap_world1) 0) \<noteq> r_info ex_OA
   \<and> r_addend (Rela_at ELFCLASS32 (outFile ex_overlap_world1) 0) \<noteq> r_addend ex_OB"
proof -
  have m: "relocsAddends (elf ex_overlap_world) = [(0, ex_OA), (4, ex_OB)]"
    "relocs (elf ex_overlap_world) = []"
    by (simp_all add: ex_overlap_world_def empty_ElfT_def)
  have a: "addRels ELFCLASS32 (ex_overlap_shdr 0) (empty_ElfT, open_in ex_overlap_bytes)
     = Inr (empty_ElfT\<lparr>relocsAddends := [(0, ex_OA)]\<rparr>, open_in ex_overlap_bytes)"
    by (simp add: ex_overlap_load ex_overlap_entries empty_ElfT_def)
  have b: "addRels ELFCLASS32 (ex_overlap_shdr 4)
        (empty_ElfT\<lparr>relocsAddends := [(0, ex_OA)]\<rparr>, open_in ex_overlap_bytes)
     = Inr (elf ex_overlap_world, open_in ex_overlap_bytes)"
    by (simp add: ex_overlap_load ex_overlap_entries empty_ElfT_def ex_overlap_world_def)
  have r: "swap_round ELFCLASS32 ex_rnd ex_overlap_world
     = Some (swap_relas ELFCLASS32 0 1 (ex_overlap_world\<lparr>rand_calls := 2\<rparr>))"
    using swap_round_rela [of ex_overlap_world ELFCLASS32 ex_rnd] m
    by (simp add: ex_rnd_def ex_overlap_world_def numeral_2_eq_2)
  from r ex_overlap_round
  have s: "swap_relas ELFCLASS32 0 1 (ex_overlap_world\<lparr>rand_calls := 2\<rparr>) = ex_overlap_world1"
    by simp
  show ?thesis
    using a b r s m(1)
    by (simp add: ex_overlap_readback) (simp add: ex_OA_def ex_OB_def ex_overlap_world_def)
qed

text \<open>
  C1, amended. A round on two distinct entries \<open>a\<close> and \<open>b\<close> of one sequence, whose
  recorded byte ranges lie in the output file and do not overlap (the ranges of the
  entries of one section never do), with a good output stream, leaves in the file, at
  the two recorded offsets: each entry's own \<open>r_info\<close>, the other entry's \<open>r_offset\<close>
  (and, for entries with addend, the other entry's \<open>r_addend\<close>); the two offsets sum to
  what they did. "Original" values are those of the parsed model. The file keeps its
  length in every round on entries whose recorded ranges lie in the file, overlapping
  or not, distinct or not. Every round keeps the model and leaves the output file that
  the exchange of two entries of one of the two sequences leaves.
\<close>

theorem swap_exchanges_offsets:
  "(rel_pair c w a b \<longrightarrow>
      (let A = snd (relocs (elf w) ! a); B = snd (relocs (elf w) ! b);
           out' = outFile (swap_rels c a b w);
           A' = Rel_at c out' (fst (relocs (elf w) ! a));
           B' = Rel_at c out' (fst (relocs (elf w) ! b))
       in r_info A' = r_info A \<and> r_info B' = r_info B
          \<and> r_offset A' = r_offset B \<and> r_offset B' = r_offset A
          \<and> r_offset A' + r_offset B' = r_offset A + r_offset B
          \<and> length (obuf out') = length (obuf (outFile w))))
   \<and> (rela_pair c w a b \<longrightarrow>
      (let A = snd (relocsAddends (elf w) ! a); B = snd (relocsAddends (elf w) ! b);
           out' = outFile (swap_relas c a b w);
           A' = Rela_at c out' (fst (relocsAddends (elf w) ! a));
           B' = Rela_at c out' (fst (relocsAddends (elf w) ! b))
       in r_info A' = r_info A \<and> r_info B' = r_info B
          \<and> r_offset A' = r_offset B \<and> r_offset B' = r_offset A
          \<and> r_addend A' = r_addend B \<and> r_addend B' = r_addend A
          \<and> r_offset A' + r_offset B' = r_offset A + r_offset B
          \<and> length (obuf out') = length (obuf (outFile w))))
   \<and> (rel_in_file c w a b \<longrightarrow>
        length (obuf (outFile (swap_rels c a b w))) = length (obuf (outFile w)))
   \<and> (rela_in_file c w a b \<longrightarrow>
        length (obuf (outFile (swap_relas c a b w))) = length (obuf (outFile w)))
   \<and> (swap_round c rnd w = Some w' \<longrightarrow>
      elf w' = elf w
      \<and> (\<exists>i j. i < length (relocs (elf w)) \<and> j < length (relocs (elf w))
                 \<and> outFile w' = outFile (swap_rels c i j w)
               \<or> i < length (relocsAddends (elf w)) \<and> j < length (relocsAddends (elf w))
                 \<and> outFile w' = outFile (swap_relas c i j w)))"
proof (intro conjI impI)
  assume "rel_pair c w a b"
  then show "let A = snd (relocs (elf w) ! a); B = snd (relocs (elf w) ! b);
           out' = outFile (swap_rels c a b w);
           A' = Rel_at c out' (fst (relocs (elf w) ! a));
           B' = Rel_at c out' (fst (relocs (elf w) ! b))
       in r_info A' = r_info A \<and> r_info B' = r_info B
          \<and> r_offset A' = r_offset B \<and> r_offset B' = r_offset A
          \<and> r_offset A' + r_offset B' = r_offset A + r_offset B
          \<and> length (obuf out') = length (obuf (outFile w))"
    by (simp add: Let_def swap_rels_distinct)
next
  assume "rela_pair c w a b"
  then show "let A = snd (relocsAddends (elf w) ! a); B = snd (relocsAddends (elf w) ! b);
           out' = outFile (swap_relas c a b w);
           A' = Rela_at c out' (fst (relocsAddends (elf w) ! a));
           B' = Rela_at c out' (fst (relocsAddends (elf w) ! b))
       in r_info A' = r_info A \<and> r_info B' = r_info B
          \<and> r_offset A' = r_offset B \<and> r_offset B' = r_offset A
          \<and> r_addend A' = r_addend B \<and> r_addend B' = r_addend A
          \<and> r_offset A' + r_offset B' = r_offset A + r_offset B
          \<and> length (obuf out') = length (obuf (outFile w))"
    by (simp add: Let_def swap_relas_distinct)
next
  assume "rel_in_file c w a b"
  then show "length (obuf (outFile (swap_rels c a b w))) = length (obuf (outFile w))"
    by (rule swap_rels_length)
next
  assume "rela_in_file c w a b"
  then show "length (obuf (outFile (swap_relas c a b w))) = length (obuf (outFile w))"
    by (rule swap_relas_length)
next
  assume "swap_round c rnd w = Some w'"
  then show "elf w' = elf w"
    by (rule swap_round_elf)
next
  assume "swap_round c rnd w = Some w'"
  then show "\<exists>i j. i < length (relocs (elf w)) \<and> j < length (relocs (elf w))
                 \<and> outFile w' = outFile (swap_rels c i j w)
               \<or> i < length (relocsAddends (elf w)) \<and> j < length (relocsAddends (elf w))
                 \<and> outFile w' = outFile (swap_relas c i j w)"
    by (rule swap_round_outFile)
qed

theorem swap_exchanges_offsets_witness:
  "rel_pair ELFCLASS64 ex_pair_world 0 1 \<and> rela_pair ELFCLASS64 ex_pair_world 0 1
   \<and> rel_in_file ELFCLASS64 ex_pair_world 0 1
   \<and> rela_in_file ELFCLASS32 ex_overlap_world 0 1
   \<and> swap_round ELFCLASS32 ex_rnd ex_rel_world = Some ex_rel_world1
   \<and> r_info (Rel_at ELFCLASS64 (outFile (swap_rels ELFCLASS64 0 1 ex_pair_world)) 0) = 0x107
   \<and> r_offset (Rel_at ELFCLASS64 (outFile (swap_rels ELFCLASS64 0 1 ex_pair_world)) 0) = 0x2000
   \<and> r_info (Rel_at ELFCLASS64 (outFile (swap_rels ELFCLASS64 0 1 ex_pair_world)) 16) = 0x207
   \<and> r_offset (Rel_at ELFCLASS64 (outFile (swap_rels ELFCLASS64 0 1 ex_pair_world)) 16) = 0x1000
   \<and> r_info (Rela_at ELFCLASS64 (outFile (swap_relas ELFCLASS64 0 1 ex_pair_world)) 32) = 0x101
   \<and> r_offset (Rela_at ELFCLASS64 (outFile (swap_relas ELFCLASS64 0 1 ex_pair_world)) 32) = 0x20
   \<and> r_addend (Rela_at ELFCLASS64 (outFile (swap_relas ELFCLASS64 0 1 ex_pair_world)) 32) = 4
   \<and> r_info (Rela_at ELFCLASS64 (outFile (swap_relas ELFCLASS64 0 1 ex_pair_world)) 56) = 0x202
   \<and> r_offset (Rela_at ELFCLASS64 (outFile (swap_relas ELFCLASS64 0 1 ex_pair_world)) 56) = 0x10
   \<and> r_addend (Rela_at ELFCLASS64 (outFile (swap_relas ELFCLASS64 0 1 ex_pair_world)) 56) = 0
   \<and> length (obuf (outFile (swap_relas ELFCLASS64 0 1 ex_pair_world))) = 80
   \<and> length (obuf (outFile (swap_rels ELFCLASS64 0 1 ex_pair_world))) = 80
   \<and> length (obuf (outFile (swap_relas ELFCLASS32 0 1 ex_overlap_world))) = 16
   \<and> elf ex_rel_world1 = elf ex_rel_world
   \<and> (\<exists>i j. i < length (relocs (elf ex_rel_world)) \<and> j < length (relocs (elf ex_rel_world))
              \<and> outFile ex_rel_world1 = outFile (swap_rels ELFCLASS32 i j ex_rel_world)
            \<or> i < length (relocsAddends (elf ex_rel_world))
              \<and> j < length (relocsAddends (elf ex_rel_world))
              \<and> outFile ex_rel_world1 = outFile (swap_relas ELFCLASS32 i j ex_rel_world))"
proof -
  have sel: "relocs (elf ex_pair_world) = [(0, ex_R0), (16, ex_R1)]"
    "relocsAddends (elf ex_pair_world) = [(32, ex_SX), (56, ex_SY)]"
    "length (obuf (outFile ex_pair_world)) = 80" "\<not> ofail (outFile ex_pair_world)"
    by (simp_all add: ex_pair_world_def sizeof_Rel_def sizeof_Rela_def)
  have ov: "relocsAddends (elf ex_overlap_world) = [(0, ex_OA), (4, ex_OB)]"
    "length (obuf (outFile ex_overlap_world)) = 16"
    by (simp_all add: ex_overlap_world_def ex_overlap_bytes_def)
  have h1: "rel_pair ELFCLASS64 ex_pair_world 0 1"
    by (simp add: rel_pair_def sel writable_def disjoint_at_def Rel_fits_def sizeof_Rel_def
          ex_R0_def ex_R1_def)
  have h2: "rela_pair ELFCLASS64 ex_pair_world 0 1"
    by (simp add: rela_pair_def sel writable_def disjoint_at_def Rela_fits_def sizeof_Rela_def
          ex_SX_def ex_SY_def)
  have h4: "rel_in_file ELFCLASS64 ex_pair_world 0 1"
    by (simp add: rel_in_file_def sel sizeof_Rel_def)
  have h5: "rela_in_file ELFCLASS32 ex_overlap_world 0 1"
    by (simp add: rela_in_file_def ov sizeof_Rela_def)
  note h3 = ex_round1
  from swap_exchanges_offsets [of ELFCLASS64 ex_pair_world 0 1 ex_rnd ex_rel_world1,
         THEN conjunct1]
       swap_exchanges_offsets [of ELFCLASS64 ex_pair_world 0 1 ex_rnd ex_rel_world1,
         THEN conjunct2, THEN conjunct1] h1 h2
  have a: "r_info (Rel_at ELFCLASS64 (outFile (swap_rels ELFCLASS64 0 1 ex_pair_world)) 0) = 0x107
   \<and> r_offset (Rel_at ELFCLASS64 (outFile (swap_rels ELFCLASS64 0 1 ex_pair_world)) 0) = 0x2000
   \<and> r_info (Rel_at ELFCLASS64 (outFile (swap_rels ELFCLASS64 0 1 ex_pair_world)) 16) = 0x207
   \<and> r_offset (Rel_at ELFCLASS64 (outFile (swap_rels ELFCLASS64 0 1 ex_pair_world)) 16) = 0x1000
   \<and> r_info (Rela_at ELFCLASS64 (outFile (swap_relas ELFCLASS64 0 1 ex_pair_world)) 32) = 0x101
   \<and> r_offset (Rela_at ELFCLASS64 (outFile (swap_relas ELFCLASS64 0 1 ex_pair_world)) 32) = 0x20
   \<and> r_addend (Rela_at ELFCLASS64 (outFile (swap_relas ELFCLASS64 0 1 ex_pair_world)) 32) = 4
   \<and> r_info (Rela_at ELFCLASS64 (outFile (swap_relas ELFCLASS64 0 1 ex_pair_world)) 56) = 0x202
   \<and> r_offset (Rela_at ELFCLASS64 (outFile (swap_relas ELFCLASS64 0 1 ex_pair_world)) 56) = 0x10
   \<and> r_addend (Rela_at ELFCLASS64 (outFile (swap_relas ELFCLASS64 0 1 ex_pair_world)) 56) = 0
   \<and> length (obuf (outFile (swap_relas ELFCLASS64 0 1 ex_pair_world))) = 80"
    by (simp add: Let_def sel ex_R0_def ex_R1_def ex_SX_def ex_SY_def)
  from swap_exchanges_offsets [of ELFCLASS64 ex_pair_world 0 1 ex_rnd ex_rel_world1,
         THEN conjunct2, THEN conjunct2, THEN conjunct1] h4
  have l1: "length (obuf (outFile (swap_rels ELFCLASS64 0 1 ex_pair_world))) = 80"
    by (simp add: sel)
  from swap_exchanges_offsets [of ELFCLASS32 ex_overlap_world 0 1 ex_rnd ex_rel_world1,
         THEN conjunct2, THEN conjunct2, THEN conjunct2, THEN conjunct1] h5
  have l2: "length (obuf (outFile (swap_relas ELFCLASS32 0 1 ex_overlap_world))) = 16"
    by (simp add: ov)
  from swap_exchanges_offsets [of ELFCLASS32 ex_rel_world 0 1 ex_rnd ex_rel_world1,
         THEN conjunct2, THEN conjunct2, THEN conjunct2, THEN conjunct2] h3
  have b: "elf ex_rel_world1 = elf ex_rel_world
   \<and> (\<exists>i j. i < length (relocs (elf ex_rel_world)) \<and> j < length (relocs (elf ex_rel_world))
              \<and> outFile ex_rel_world1 = outFile (swap_rels ELFCLASS32 i j ex_rel_world)
            \<or> i < length (relocsAddends (elf ex_rel_world))
              \<and> j < length (relocsAddends (elf ex_rel_world))
              \<and> outFile ex_rel_world1 = outFile (swap_relas ELFCLASS32 i j ex_rel_world))"
    by blast
  from h1 h2 h3 h4 h5 a l1 l2 b show ?thesis by blast
qed



text \<open>
  C5, as stated, fails in its last part: a round also appends a progress line to
  standard output and draws from \<open>rand()\<close>. One round on a model of two relocations
  without addend leaves the line \<open>Swapped reloc 0 with 1\<close> on standard output and has
  made two draws.
\<close>

theorem swapN_side_effects_counterexample:
  "swapN ELFCLASS32 ex_rnd 1 ex_rel_world = Inr ex_rel_world1
   \<and> cout ex_rel_world = []
   \<and> cout ex_rel_world1 = ''Swapped reloc 0 with 1'' @ endl
   \<and> rand_calls ex_rel_world = 0
   \<and> rand_calls ex_rel_world1 = 2
   \<and> cout ex_rel_world1 \<noteq> cout ex_rel_world
   \<and> rand_calls ex_rel_world1 \<noteq> rand_calls ex_rel_world"
  using ex_round1
  by (simp add: swapN_def) (simp add: ex_rel_world_def ex_rel_world1_def)

text \<open>
  C5, amended. \<open>swapN\<close> returns for every positive count and every sequence of random
  values, and the model it returns with is the model it was called with: the
  relocation sequences with their recorded offsets, the symbol table and both string
  tables. Besides the output stream, what it changes is standard output, to which it
  only appends, and the position in the random sequence, which only advances.
\<close>

theorem swapN_keeps_model:
  "(0 < n \<longrightarrow> (\<exists>w'. swapN c rnd n w = Inr w'))
   \<and> (swapN c rnd n w = Inr w' \<longrightarrow>
        elf w' = elf w \<and> (\<exists>s. cout w' = cout w @ s) \<and> rand_calls w \<le> rand_calls w')"
  using swap_rounds_effects [of c rnd "nat n" w]
  by (auto simp: swapN_def swap_rounds_elf split: if_splits)

theorem swapN_keeps_model_witness:
  "(0::int) < 1
   \<and> swapN ELFCLASS32 ex_rnd 1 ex_rel_world = Inr ex_rel_world1
   \<and> elf ex_rel_world1 = elf ex_rel_world
   \<and> (\<exists>s. cout ex_rel_world1 = cout ex_rel_world @ s)
   \<and> rand_calls ex_rel_world \<le> rand_calls ex_rel_world1"
proof -
  have pos: "(0::int) < 1" by simp
  have r: "swapN ELFCLASS32 ex_rnd 1 ex_rel_world = Inr ex_rel_world1"
    using ex_round1 by (simp add: swapN_def)
  from swapN_keeps_model [of 1 ELFCLASS32 ex_rnd ex_rel_world ex_rel_world1] pos r
  show ?thesis by blast
qed

text \<open>
  C6. With both relocation sequences empty, \<open>swapN\<close> with a count of at least one
  returns without error at its first round and leaves the whole state as it was: no
  write, no output line and no call of \<open>rand()\<close>.
\<close>

theorem swapN_empty_noop:
  "relocs (elf w) = [] \<Longrightarrow> relocsAddends (elf w) = [] \<Longrightarrow> 1 \<le> n
    \<Longrightarrow> swapN c rnd n w = Inr w"
proof -
  assume e: "relocs (elf w) = []" "relocsAddends (elf w) = []" and n: "1 \<le> n"
  from n obtain k where k: "nat n = Suc k"
    by (cases "nat n") auto
  have "swap_rounds c rnd (Suc k) w = w"
    using e by (simp add: swap_round_empty)
  then show ?thesis
    using n k by (simp add: swapN_def)
qed

theorem swapN_empty_noop_witness:
  "relocs (elf ex_empty_world) = [] \<and> relocsAddends (elf ex_empty_world) = [] \<and> (1::int) \<le> 3
   \<and> swapN ELFCLASS32 ex_rnd 3 ex_empty_world = Inr ex_empty_world"
proof -
  have e: "relocs (elf ex_empty_world) = []" "relocsAddends (elf ex_empty_world) = []"
    by (simp_all add: ex_empty_world_def empty_ElfT_def)
  have n: "(1::int) \<le> 3" by simp
  from swapN_empty_noop [OF e n, of ELFCLASS32 ex_rnd] e n show ?thesis by blast
qed




subsection \<open>Symbol names and the dump\<close>

text \<open>
  C4, as stated, fails: with the symbol index inside the symbol table, the name is
  returned only when the symbol's name index lies inside the string table. For a
  symbol whose name index is 5 and a string table of two bytes, no name is found at
  that index and the sentinel is returned.
\<close>

theorem relocSymName_counterexample:
  "sym_index ELFCLASS64 0 < length (symbolTable ex_short_strtab)
   \<and> relocSymName ELFCLASS64 ex_short_strtab 0 = Inr ''N/A''
   \<and> name_at (stringTable ex_short_strtab)
        (st_name (symbolTable ex_short_strtab ! sym_index ELFCLASS64 0)) = []
   \<and> relocSymName ELFCLASS64 ex_short_strtab 0
       \<noteq> Inr (name_at (stringTable ex_short_strtab)
                (st_name (symbolTable ex_short_strtab ! sym_index ELFCLASS64 0)))"
  by (simp add: relocSymName_eq sym_index_def ex_short_strtab_def name_at_def)

text \<open>
  C4, amended. The symbol index is taken with the split of the class. If it lies
  inside the symbol table and the symbol's name index lies inside the string table
  (where a terminator follows), the result is the null-terminated name found there; if
  the symbol index lies outside the symbol table, the result is the sentinel \<open>N/A\<close>.
  No access starts outside its table. The result depends on the model and the info
  value only.
\<close>

theorem relocSymName_resolves:
  "(sym_index c rInfo < length (symbolTable m)
      \<and> st_name (symbolTable m ! sym_index c rInfo) < length (stringTable m)
      \<and> NUL \<in> set (drop (st_name (symbolTable m ! sym_index c rInfo)) (stringTable m))
    \<longrightarrow> relocSymName c m rInfo
          = Inr (name_at (stringTable m) (st_name (symbolTable m ! sym_index c rInfo))))
   \<and> (length (symbolTable m) \<le> sym_index c rInfo \<longrightarrow> relocSymName c m rInfo = Inr ''N/A'')
   \<and> relocSymName c m rInfo \<noteq> Inl OutOfBounds
   \<and> sym_index ELFCLASS32 rInfo = ELF32_R_SYM (rInfo mod 2 ^ 64)
   \<and> sym_index ELFCLASS64 rInfo = ELF64_R_SYM (rInfo mod 2 ^ 64)"
  by (simp add: relocSymName_no_oob)
     (simp add: relocSymName_eq cstr_terminated sym_index_def ELF32_R_SYM_def ELF64_R_SYM_def)

theorem relocSymName_resolves_witness:
  "sym_index ELFCLASS32 8 < length (symbolTable ex_model)
   \<and> st_name (symbolTable ex_model ! sym_index ELFCLASS32 8) < length (stringTable ex_model)
   \<and> NUL \<in> set (drop (st_name (symbolTable ex_model ! sym_index ELFCLASS32 8))
                    (stringTable ex_model))
   \<and> length (symbolTable ex_model) \<le> sym_index ELFCLASS32 0x107
   \<and> relocSymName ELFCLASS32 ex_model 8 = Inr ''bar''
   \<and> relocSymName ELFCLASS32 ex_model 0x107 = Inr ''N/A''"
proof -
  have i0: "sym_index ELFCLASS32 8 = 0" and i1: "sym_index ELFCLASS32 0x107 = 1"
    by (simp_all add: sym_index_def)
  have tabs: "symbolTable ex_model = [\<lparr>st_name = 1\<rparr>]" "stringTable ex_model = ex_bar"
    by (simp_all add: ex_model_def)
  have h1: "sym_index ELFCLASS32 8 < length (symbolTable ex_model)"
    by (simp add: i0 tabs)
  have h2: "st_name (symbolTable ex_model ! sym_index ELFCLASS32 8) < length (stringTable ex_model)"
    by (simp add: i0 tabs ex_bar_def)
  have h3: "NUL \<in> set (drop (st_name (symbolTable ex_model ! sym_index ELFCLASS32 8))
                    (stringTable ex_model))"
    by (simp add: i0 tabs ex_bar_def)
  have h4: "length (symbolTable ex_model) \<le> sym_index ELFCLASS32 0x107"
    by (simp add: i1 tabs)
  have nm: "name_at (stringTable ex_model)
              (st_name (symbolTable ex_model ! sym_index ELFCLASS32 8)) = ''bar''"
    by (simp add: i0 tabs ex_bar_def name_at_def NUL_def)
  from relocSymName_resolves [of ELFCLASS32 8 ex_model] h1 h2 h3 nm
  have a: "relocSymName ELFCLASS32 ex_model 8 = Inr ''bar''"
    by simp
  from relocSymName_resolves [of ELFCLASS32 "0x107" ex_model] h4
  have b: "relocSymName ELFCLASS32 ex_model 0x107 = Inr ''N/A''"
    by blast
  from h1 h2 h3 h4 a b show ?thesis by blast
qed

text \<open>
  C10. With the symbol index inside the symbol table and the symbol's name index at or
  beyond the size of the string table, the result is the sentinel \<open>N/A\<close>; and for no
  input does a table access start outside its table.
\<close>

theorem relocSymName_name_index_guard:
  "(sym_index c rInfo < length (symbolTable m)
      \<and> length (stringTable m) \<le> st_name (symbolTable m ! sym_index c rInfo)
    \<longrightarrow> relocSymName c m rInfo = Inr ''N/A'')
   \<and> relocSymName c m rInfo \<noteq> Inl OutOfBounds"
  by (simp add: relocSymName_no_oob) (simp add: relocSymName_eq)

theorem relocSymName_name_index_guard_witness:
  "sym_index ELFCLASS64 0 < length (symbolTable ex_short_strtab)
   \<and> length (stringTable ex_short_strtab)
       \<le> st_name (symbolTable ex_short_strtab ! sym_index ELFCLASS64 0)
   \<and> relocSymName ELFCLASS64 ex_short_strtab 0 = Inr ''N/A''"
proof -
  have h1: "sym_index ELFCLASS64 0 < length (symbolTable ex_short_strtab)"
    by (simp add: sym_index_def ex_short_strtab_def)
  have h2: "length (stringTable ex_short_strtab)
       \<le> st_name (symbolTable ex_short_strtab ! sym_index ELFCLASS64 0)"
    by (simp add: sym_index_def ex_short_strtab_def)
  from relocSymName_name_index_guard [of ELFCLASS64 0 ex_short_strtab] h1 h2
  show ?thesis by blast
qed




subsection \<open>Loading\<close>




lemma isSection_named:
  "section_named m shdr nm \<Longrightarrow> isSection m (sh_name shdr) nm' = Inr (nm' = nm)"
  by (auto simp: section_named_def isSection_def split: if_splits sum.splits)

lemma orelse_Inr: "orelse (Inr a) (Inr b) = Inr (a \<or> b)"
  by (cases a) (simp_all add: orelse_def)

lemma load_section_dispatch:
  assumes "readable fp" "gpos fp + sizeof_Shdr c \<le> length (content fp)"
    and "section_named m (next_shdr c fp) nm"
  shows "load_section c (m, fp) =
     (let shdr = next_shdr c fp; fp1 = fp\<lparr>gpos := gpos fp + sizeof_Shdr c\<rparr> in
      if (sh_type shdr = SHT_REL \<or> sh_type shdr = SHT_RELA)
           \<and> (nm = ''.rel.dyn'' \<or> nm = ''.rela.dyn'' \<or> nm = ''.rela.plt'')
        then addRels c shdr (m, fp1)
      else if sh_type shdr = SHT_STRTAB \<and> nm = ''.dynstr'' then addStringTable c shdr (m, fp1)
      else if sh_type shdr = SHT_DYNSYM \<and> nm = ''.dynsym'' then addSymbolTable c shdr (m, fp1)
      else Inr (m, fp1))"
proof -
  have nf: "\<not> failbit fp"
    using assms(1) by (simp add: readable_def)
  have rd: "read (sizeof_Shdr c) fp
      = (slice (content fp) (gpos fp) (sizeof_Shdr c), fp\<lparr>gpos := gpos fp + sizeof_Shdr c\<rparr>)"
    using nf assms(2) by (rule read_ok)
  note nmd = isSection_named [OF assms(3)]
  show ?thesis
    using nf
    by (simp add: load_section_def rd Let_def next_shdr_def [symmetric] nmd andalso_def
          orelse_Inr eq_commute [of nm])
qed

text \<open>
  C3, as stated, fails: the loader handles every matching section, and the dynamic
  string table is the one of the last \<open>.dynstr\<close>. The example image has two sections
  named \<open>.dynstr\<close> of type \<open>SHT_STRTAB\<close>, the first over the bytes of \<open>foo\<close> and the
  second over those of \<open>bar\<close>; after parsing, the string table is the second.
\<close>

theorem duplicate_dynstr_counterexample:
  "parseElf (open_in ex_image) = Inr (ELFCLASS32, ex_model)
   \<and> next_shdr ELFCLASS32 (ex_fp 212)
       = \<lparr>sh_name = 38, sh_type = SHT_STRTAB, sh_offset = 436, sh_size = 5, sh_entsize = 0\<rparr>
   \<and> next_shdr ELFCLASS32 (ex_fp 252)
       = \<lparr>sh_name = 38, sh_type = SHT_STRTAB, sh_offset = 441, sh_size = 5, sh_entsize = 0\<rparr>
   \<and> cstr (sectionStringTable ex_model) 38 = Inr ''.dynstr''
   \<and> slice ex_image 436 5 = ex_foo
   \<and> stringTable ex_model = ex_bar
   \<and> stringTable ex_model \<noteq> slice ex_image 436 5"
proof -
  have "ex_bar \<noteq> ex_foo"
    by (simp add: ex_bar_def ex_foo_def)
  moreover have "stringTable ex_model = ex_bar" "sectionStringTable ex_model = ex_names"
    by (simp_all add: ex_model_def)
  ultimately show ?thesis
    using ex_parseElf ex_cstr(5)
    by (simp add: next_shdr_def ex_sh4 ex_sh5 SHT_STRTAB_def ex_str0)
qed

text \<open>
  C3, amended. Every section that matches a recognized name with the matching type and
  whose data can be read is loaded, whatever the model already holds, a later
  occurrence as the first: a relocation section with a non-zero \<open>sh_entsize\<close> whose
  entries lie inside the file appends them to the sequence of its shape; a \<open>.dynsym\<close>
  section whose \<open>sh_entsize\<close> is at least 4 and at most the size of a symbol record and
  whose symbols, fewer than \<open>2^31\<close>, lie inside the file appends them to the symbol
  table; a \<open>.dynstr\<close> section that lies inside the file replaces the dynamic string
  table. These conditions are \<open>section_fits\<close>; the section header is the one at the
  read position, and \<open>honored\<close> is the model after loading.
\<close>

theorem load_section_honors_every_match:
  "readable fp \<Longrightarrow> gpos fp + sizeof_Shdr c \<le> length (content fp)
    \<Longrightarrow> recognized m (next_shdr c fp)
    \<Longrightarrow> section_fits c (next_shdr c fp) (content fp)
    \<Longrightarrow> load_section c (m, fp)
          = Inr (honored c (next_shdr c fp) (content fp) m,
                 fp\<lparr>gpos := gpos fp + sizeof_Shdr c\<rparr>)"
proof -
  let ?shdr = "next_shdr c fp" and ?fp1 = "fp\<lparr>gpos := gpos fp + sizeof_Shdr c\<rparr>"
  assume r: "readable fp" and hd: "gpos fp + sizeof_Shdr c \<le> length (content fp)"
    and rec: "recognized m ?shdr" and fits: "section_fits c ?shdr (content fp)"
  have r1: "readable ?fp1" and c1: "content ?fp1 = content fp"
    using r by (simp_all add: readable_def)
  from rec consider
      (rel) nm where "sh_type ?shdr = SHT_REL" "section_named m ?shdr nm"
        "nm = ''.rel.dyn'' \<or> nm = ''.rela.dyn'' \<or> nm = ''.rela.plt''"
    | (rela) nm where "sh_type ?shdr = SHT_RELA" "section_named m ?shdr nm"
        "nm = ''.rel.dyn'' \<or> nm = ''.rela.dyn'' \<or> nm = ''.rela.plt''"
    | (str) "sh_type ?shdr = SHT_STRTAB" "section_named m ?shdr ''.dynstr''"
    | (sym) "sh_type ?shdr = SHT_DYNSYM" "section_named m ?shdr ''.dynsym''"
    unfolding recognized_def by blast
  then show ?thesis
  proof cases
    case rel
    from fits rel(1) have "sh_entsize ?shdr \<noteq> 0"
      "sh_offset ?shdr + (sh_size ?shdr div sh_entsize ?shdr) * sizeof_Rel c
         \<le> length (content ?fp1)"
      by (simp_all add: section_fits_def SHT_REL_def SHT_STRTAB_def)
    from addRels_REL [OF r1 rel(1) this, of m] rel(1,3) show ?thesis
      by (simp add: load_section_dispatch [OF r hd rel(2)] Let_def honored_def)
  next
    case rela
    from fits rela(1) have "sh_entsize ?shdr \<noteq> 0"
      "sh_offset ?shdr + (sh_size ?shdr div sh_entsize ?shdr) * sizeof_Rela c
         \<le> length (content ?fp1)"
      by (simp_all add: section_fits_def SHT_REL_def SHT_RELA_def SHT_STRTAB_def)
    from addRels_RELA [OF r1 rela(1) this, of m] rela(1,3) show ?thesis
      by (simp add: load_section_dispatch [OF r hd rela(2)] Let_def honored_def
            SHT_REL_def SHT_RELA_def)
  next
    case str
    from fits str(1) have "sh_offset ?shdr + sh_size ?shdr \<le> length (content ?fp1)"
      by (simp add: section_fits_def)
    from addStringTable_ok [OF r1 str(1) this, of c m] str(1) show ?thesis
      by (simp add: load_section_dispatch [OF r hd str(2)] Let_def honored_def
            SHT_REL_def SHT_RELA_def SHT_STRTAB_def)
  next
    case sym
    from fits sym(1) have "4 \<le> sh_entsize ?shdr" "sh_entsize ?shdr \<le> sizeof_Sym c"
      "sh_size ?shdr div sh_entsize ?shdr < 2 ^ 31"
      "sh_offset ?shdr + (sh_size ?shdr div sh_entsize ?shdr) * sh_entsize ?shdr
         \<le> length (content ?fp1)"
      by (simp_all add: section_fits_def SHT_REL_def SHT_RELA_def SHT_STRTAB_def SHT_DYNSYM_def)
    from addSymbolTable_ok [OF r1 sym(1) this, of m] sym(1) show ?thesis
      by (simp add: load_section_dispatch [OF r hd sym(2)] Let_def honored_def
            SHT_REL_def SHT_RELA_def SHT_STRTAB_def SHT_DYNSYM_def)
  qed
qed

theorem load_section_honors_every_match_witness:
  "readable (ex_fp 252)
   \<and> gpos (ex_fp 252) + sizeof_Shdr ELFCLASS32 \<le> length (content (ex_fp 252))
   \<and> recognized (ex_model\<lparr>stringTable := ex_foo\<rparr>) (next_shdr ELFCLASS32 (ex_fp 252))
   \<and> section_fits ELFCLASS32 (next_shdr ELFCLASS32 (ex_fp 252)) (content (ex_fp 252))
   \<and> load_section ELFCLASS32 (ex_model\<lparr>stringTable := ex_foo\<rparr>, ex_fp 252)
       = Inr (ex_model, ex_fp 292)
   \<and> readable (ex_fp 132)
   \<and> gpos (ex_fp 132) + sizeof_Shdr ELFCLASS32 \<le> length (content (ex_fp 132))
   \<and> recognized (ex_model\<lparr>relocsAddends := [(396, ex_X)]\<rparr>)
         (next_shdr ELFCLASS32 (ex_fp 132))
   \<and> section_fits ELFCLASS32 (next_shdr ELFCLASS32 (ex_fp 132)) (content (ex_fp 132))
   \<and> load_section ELFCLASS32 (ex_model\<lparr>relocsAddends := [(396, ex_X)]\<rparr>, ex_fp 132)
       = Inr (ex_model, ex_fp 172)"
proof -
  let ?m = "ex_model\<lparr>stringTable := ex_foo\<rparr>"
  let ?m' = "ex_model\<lparr>relocsAddends := [(396, ex_X)]\<rparr>"
  have sh: "next_shdr ELFCLASS32 (ex_fp 252)
       = \<lparr>sh_name = 38, sh_type = SHT_STRTAB, sh_offset = 441, sh_size = 5, sh_entsize = 0\<rparr>"
    by (simp add: next_shdr_def ex_sh5 SHT_STRTAB_def)
  have h1: "readable (ex_fp 252)"
    by simp
  have h2: "gpos (ex_fp 252) + sizeof_Shdr ELFCLASS32 \<le> length (content (ex_fp 252))"
    by (simp add: ex_len)
  have "isSection ?m 38 ''.dynstr'' = Inr True"
    using ex_isSection(5) [of ?m "''.dynstr''"] by (simp add: ex_model_def)
  then have h3: "recognized ?m (next_shdr ELFCLASS32 (ex_fp 252))"
    by (simp add: sh recognized_def section_named_def)
  have h4: "section_fits ELFCLASS32 (next_shdr ELFCLASS32 (ex_fp 252)) (content (ex_fp 252))"
    by (simp add: sh section_fits_def ex_len)
  have "honored ELFCLASS32 (next_shdr ELFCLASS32 (ex_fp 252)) (content (ex_fp 252)) ?m
          = ex_model"
    by (simp add: sh honored_def SHT_REL_def SHT_RELA_def SHT_STRTAB_def ex_str1 ex_model_def)
  with load_section_honors_every_match [OF h1 h2 h3 h4]
  have a: "load_section ELFCLASS32 (?m, ex_fp 252) = Inr (ex_model, ex_fp 292)"
    by simp
  have sh': "next_shdr ELFCLASS32 (ex_fp 132)
       = \<lparr>sh_name = 20, sh_type = SHT_RELA, sh_offset = 408, sh_size = 12, sh_entsize = 12\<rparr>"
    by (simp add: next_shdr_def ex_sh2 SHT_RELA_def)
  have g1: "readable (ex_fp 132)"
    by simp
  have g2: "gpos (ex_fp 132) + sizeof_Shdr ELFCLASS32 \<le> length (content (ex_fp 132))"
    by (simp add: ex_len)
  have "isSection ?m' 20 ''.rela.plt'' = Inr True"
    using ex_isSection(3) [of ?m' "''.rela.plt''"] by (simp add: ex_model_def)
  then have g3: "recognized ?m' (next_shdr ELFCLASS32 (ex_fp 132))"
    by (simp add: sh' recognized_def section_named_def)
  have g4: "section_fits ELFCLASS32 (next_shdr ELFCLASS32 (ex_fp 132)) (content (ex_fp 132))"
    by (simp add: sh' section_fits_def ex_len sizeof_Rela_def SHT_REL_def SHT_RELA_def
          SHT_STRTAB_def)
  have "honored ELFCLASS32 (next_shdr ELFCLASS32 (ex_fp 132)) (content (ex_fp 132)) ?m'
          = ex_model"
    using ex_rela1
    by (simp add: sh' honored_def SHT_REL_def SHT_RELA_def ex_model_def)
  with load_section_honors_every_match [OF g1 g2 g3 g4]
  have b: "load_section ELFCLASS32 (?m', ex_fp 132) = Inr (ex_model, ex_fp 172)"
    by simp
  from h1 h2 h3 h4 a g1 g2 g3 g4 b show ?thesis by blast
qed

subsection \<open>A swap count of zero\<close>

lemma main_zero:
  "n \<le> 0 \<Longrightarrow> main rnd doDump n outFname fname fs = Inr (out, fs') \<Longrightarrow> fs' = fs"
  by (auto simp: main_def Let_def split: option.splits sum.splits if_splits prod.splits)

lemma ex_main_zero:
  "main ex_rnd False 0 (Some ''out.elf'') ''in.elf'' ex_fs = Inr ([], ex_fs)"
  by (simp add: main_def ex_fs_def ex_parseElf)

lemma main_no_swaps:
  "n \<le> 0 \<Longrightarrow> main rnd doDump n outFname fname fs = main rnd' doDump 0 None fname fs"
  by (auto simp: main_def Let_def split: option.splits sum.splits prod.splits)

text \<open>
  C7, as stated, fails: \<open>swapN\<close> asserts a positive count, and \<open>main\<close> neither copies
  the input nor calls \<open>swapN\<close> for a count of zero, so that no output file exists
  afterwards where none did before.
\<close>

theorem swapN_zero_counterexample:
  "swapN ELFCLASS32 ex_rnd 0 ex_rel_world = Inl (AssertFail ''Invalid input.'')
   \<and> main ex_rnd False 0 (Some ''out.elf'') ''in.elf'' ex_fs = Inr ([], ex_fs)
   \<and> ex_fs ''out.elf'' = None"
  using ex_main_zero by (simp add: swapN_def ex_fs_def)

text \<open>
  C7, amended. A swap count of zero never reaches the shuffle operation, whose contract
  is a positive count (it asserts so): for a count of zero, or a negative count, which
  is clamped to zero, \<open>main\<close> does exactly what it does for a count of zero with no
  output file asked for, whatever the output name and the random values are. So no
  round runs, no output file is opened, truncated, copied or written, and the file
  system at exit is the one at entry.
\<close>

theorem zero_swaps_skip_shuffle:
  "swapN c rnd 0 w = Inl (AssertFail ''Invalid input.'')
   \<and> (n \<le> 0 \<longrightarrow>
        main rnd doDump n outFname fname fs = main rnd' doDump 0 None fname fs)
   \<and> (n \<le> 0 \<and> main rnd doDump n outFname fname fs = Inr (out, fs') \<longrightarrow> fs' = fs)"
  by (auto simp: swapN_def main_no_swaps dest: main_zero)

theorem zero_swaps_skip_shuffle_witness:
  "(- 3::int) \<le> 0
   \<and> main ex_rnd False (- 3) (Some ''out.elf'') ''in.elf'' ex_fs
       = main (\<lambda>k. 7) False 0 None ''in.elf'' ex_fs
   \<and> main ex_rnd False (- 3) (Some ''out.elf'') ''in.elf'' ex_fs = Inr ([], ex_fs)
   \<and> swapN ELFCLASS32 ex_rnd 0 ex_rel_world = Inl (AssertFail ''Invalid input.'')"
  using zero_swaps_skip_shuffle
          [of ELFCLASS32 ex_rnd ex_rel_world "- 3" False "Some ''out.elf''" "''in.elf''" ex_fs
              "\<lambda>k. 7" "[]" ex_fs]
    ex_main_plain [of "\<lambda>k. 7"]
  by simp

end
